theory Spec2Isabelle
  imports Complex_Main "HOL-Library.Word"
begin

section \<open>The host: ECMAScript values as the type guards see them\<close>

text \<open>
  The library is a set of predicates over one value of static type \<open>unknown\<close>. Every
  predicate is a few host operations (\<open>typeof\<close>, \<open>Array.isArray\<close>, \<open>instanceof\<close>,
  property reads, \<open>Object.prototype.toString\<close>, \<open>Number\<close>, \<open>JSON.stringify\<close>, regular
  expressions), so the embedding is a model of the values together with those operations,
  written after ECMA-262, and then the library functions on top of it, one definition per
  source function.

  Scope of the value model.
  \<^item> Strings are sequences of UTF-16 code units.
  \<^item> A finite number carries its mathematical value; \<open>+0\<close> and \<open>-0\<close> are not told apart
    (no operation of the library distinguishes them).
  \<^item> An object has its internal slots (which decide \<open>typeof\<close>, \<open>Array.isArray\<close> and the
    built-in tag), its properties, and the first intrinsic prototype on its prototype
    chain (\<open>None\<close> when the chain ends in \<open>null\<close> before reaching one). The intrinsics
    are the unmodified ones of a single realm.
  \<^item> Proxy objects are not modelled, neither as values nor as members of a prototype
    chain: every statement is about the values that are not a Proxy and have no Proxy on
    their prototype chain. On these the walk along the chain that \<open>instanceof\<close> performs
    cannot throw; through a Proxy whose trap throws it does.
  \<^item> A property is a data property or an accessor; an accessor is given by the completion
    of its getter. Properties inherited from user-defined prototype objects are listed
    with the object's own ones, flagged non-enumerable: the library tells own from
    inherited properties only through \<open>Object.keys\<close>.
  \<^item> The method calls \<open>value.getTime()\<close> and \<open>value.every(p)\<close> look the method up
    like any property. A method that the object has of its own or from a user-defined
    prototype is code that the value carries: the outcome of calling it is a parameter
    of the model. Otherwise the call reaches \<open>Date.prototype.getTime\<close> or
    \<open>Array.prototype.every\<close> when that prototype is on the chain, and throws a
    \<open>TypeError\<close> when it is not.
  \<^item> Arrays are dense (no holes).
\<close>

subsection \<open>Strings\<close>

type_synonym code_unit = "16 word"
type_synonym jsstring = "code_unit list"

text \<open>An ASCII literal of the source as a sequence of code units.\<close>

definition lit :: "string \<Rightarrow> jsstring" where
  "lit s = map (\<lambda>c. of_nat (of_char c)) s"

text \<open>
  \<open>WhiteSpace\<close> and \<open>LineTerminator\<close> of ECMA-262: the code units stripped by
  \<open>String.prototype.trim\<close>, skipped by \<open>StringToNumber\<close> and matched by \<open>\s\<close>.
\<close>

definition isWhiteSpace :: "code_unit \<Rightarrow> bool" where
  "isWhiteSpace c \<longleftrightarrow>
     c = 0x9 \<or> c = 0xA \<or> c = 0xB \<or> c = 0xC \<or> c = 0xD \<or> c = 0x20 \<or> c = 0xA0 \<or>
     c = 0x1680 \<or> (0x2000 \<le> c \<and> c \<le> 0x200A) \<or> c = 0x2028 \<or> c = 0x2029 \<or>
     c = 0x202F \<or> c = 0x205F \<or> c = 0x3000 \<or> c = 0xFEFF"

definition trim :: "jsstring \<Rightarrow> jsstring" where
  "trim s = rev (dropWhile isWhiteSpace (rev (dropWhile isWhiteSpace s)))"

definition isDecimalDigit :: "code_unit \<Rightarrow> bool" where
  "isDecimalDigit c \<longleftrightarrow> 0x30 \<le> c \<and> c \<le> 0x39"

definition isHexDigit :: "code_unit \<Rightarrow> bool" where
  "isHexDigit c \<longleftrightarrow> isDecimalDigit c \<or> (0x61 \<le> c \<and> c \<le> 0x66) \<or> (0x41 \<le> c \<and> c \<le> 0x46)"

definition hexDigitValue :: "code_unit \<Rightarrow> nat" where
  "hexDigitValue c =
     (if isDecimalDigit c then unat c - 0x30
      else if 0x61 \<le> c then unat c - 0x61 + 10
      else unat c - 0x41 + 10)"

text \<open>The value of a digit string in a radix, most significant digit first.\<close>

definition digitsValue :: "nat \<Rightarrow> jsstring \<Rightarrow> nat" where
  "digitsValue radix ds = foldl (\<lambda>a c. radix * a + hexDigitValue c) 0 ds"

text \<open>The decimal digits of a natural number (array indices, BigInt rendering).\<close>

fun decimal :: "nat \<Rightarrow> jsstring" where
  "decimal n =
     (if n < 10 then [of_nat (0x30 + n)]
      else decimal (n div 10) @ [of_nat (0x30 + n mod 10)])"

declare decimal.simps [simp del]

subsection \<open>Numbers and the string-to-number conversion\<close>

datatype number = Finite rat | NaN | PosInfinity | NegInfinity

definition Number_isFinite :: "number \<Rightarrow> bool" where
  "Number_isFinite n = (case n of Finite _ \<Rightarrow> True | _ \<Rightarrow> False)"

definition Number_isInteger :: "number \<Rightarrow> bool" where
  "Number_isInteger n = (case n of Finite q \<Rightarrow> of_int \<lfloor>q\<rfloor> = q | _ \<Rightarrow> False)"

definition Number_isNaN :: "number \<Rightarrow> bool" where
  "Number_isNaN n = (case n of NaN \<Rightarrow> True | _ \<Rightarrow> False)"

text \<open>The comparison \<open>n > 0\<close>.\<close>

definition greaterThanZero :: "number \<Rightarrow> bool" where
  "greaterThanZero n = (case n of Finite q \<Rightarrow> 0 < q | PosInfinity \<Rightarrow> True | _ \<Rightarrow> False)"

text \<open>
  Rounding a mathematical value to a Number. Round-to-nearest, ties to even, sends
  exactly the values of magnitude at least \<open>2\<^sup>1\<^sup>0\<^sup>2\<^sup>4 - 2\<^sup>9\<^sup>7\<^sup>0\<close> to an infinity. The
  finite results keep the exact value: the rounding of the significand is not modelled,
  it never changes whether the result is finite.
\<close>

definition roundMV :: "rat \<Rightarrow> number" where
  "roundMV q =
     (if 2 ^ 1024 - 2 ^ 970 \<le> q then PosInfinity
      else if q \<le> - (2 ^ 1024 - 2 ^ 970) then NegInfinity
      else Finite q)"

text \<open>
  \<open>ExponentPart\<close>: an exponent indicator, an optional sign and at least one digit.
  \<open>None\<close> is a syntax error.
\<close>

definition ExponentPart :: "jsstring \<Rightarrow> int option" where
  "ExponentPart s =
     (case s of
        [] \<Rightarrow> None
      | e # r \<Rightarrow>
          if e \<noteq> 0x65 \<and> e \<noteq> 0x45 then None
          else
            (let ds = (case r of [] \<Rightarrow> [] | x # r' \<Rightarrow> if x = 0x2B \<or> x = 0x2D then r' else r);
                 neg = (case r of [] \<Rightarrow> False | x # _ \<Rightarrow> x = 0x2D)
             in if ds = [] \<or> \<not> list_all isDecimalDigit ds then None
                else Some (if neg then - int (digitsValue 10 ds) else int (digitsValue 10 ds))))"

text \<open>
  \<open>StrUnsignedDecimalLiteral\<close> other than \<open>Infinity\<close>: digits with an optional
  fraction and exponent, or a fraction that starts with the dot. The result is the
  mathematical value of the literal.
\<close>

definition StrUnsignedDecimalLiteral :: "jsstring \<Rightarrow> rat option" where
  "StrUnsignedDecimalLiteral s =
     (let ip = takeWhile isDecimalDigit s;
          r1 = dropWhile isDecimalDigit s;
          dot = (r1 \<noteq> [] \<and> hd r1 = 0x2E);
          fp = (if dot then takeWhile isDecimalDigit (tl r1) else []);
          r2 = (if dot then dropWhile isDecimalDigit (tl r1) else r1);
          ex = (if r2 = [] then Some 0 else ExponentPart r2)
      in if ip = [] \<and> fp = [] then None
         else
           (case ex of
              None \<Rightarrow> None
            | Some e \<Rightarrow>
                (let m = of_nat (digitsValue 10 (ip @ fp)); k = e - int (length fp)
                 in Some (if 0 \<le> k then m * 10 ^ nat k else m / 10 ^ nat (- k)))))"

definition StrDecimalLiteral :: "jsstring \<Rightarrow> number" where
  "StrDecimalLiteral s =
     (let neg = (s \<noteq> [] \<and> hd s = 0x2D);
          u = (if s \<noteq> [] \<and> (hd s = 0x2B \<or> hd s = 0x2D) then tl s else s)
      in if u = lit ''Infinity'' then (if neg then NegInfinity else PosInfinity)
         else
           (case StrUnsignedDecimalLiteral u of
              None \<Rightarrow> NaN
            | Some q \<Rightarrow> roundMV (if neg then - q else q)))"

text \<open>\<open>NonDecimalIntegerLiteral\<close>: \<open>0b\<close>, \<open>0o\<close> or \<open>0x\<close> and at least one digit.\<close>

definition NonDecimalIntegerLiteral :: "jsstring \<Rightarrow> nat option" where
  "NonDecimalIntegerLiteral s =
     (case s of
        z # p # ds \<Rightarrow>
          if z \<noteq> 0x30 \<or> ds = [] then None
          else if (p = 0x62 \<or> p = 0x42) \<and> list_all (\<lambda>c. c = 0x30 \<or> c = 0x31) ds
            then Some (digitsValue 2 ds)
          else if (p = 0x6F \<or> p = 0x4F) \<and> list_all (\<lambda>c. 0x30 \<le> c \<and> c \<le> 0x37) ds
            then Some (digitsValue 8 ds)
          else if (p = 0x78 \<or> p = 0x58) \<and> list_all isHexDigit ds
            then Some (digitsValue 16 ds)
          else None
      | _ \<Rightarrow> None)"

text \<open>
  \<open>StringToNumber\<close>, that is \<open>Number(s)\<close> for a string \<open>s\<close>: white space on both sides
  is skipped, the empty string is \<open>0\<close>, anything that is not a \<open>StrNumericLiteral\<close>
  is \<open>NaN\<close>. It never throws.
\<close>

definition StringToNumber :: "jsstring \<Rightarrow> number" where
  "StringToNumber str =
     (let s = trim str
      in if s = [] then Finite 0
         else
           (case NonDecimalIntegerLiteral s of
              Some n \<Rightarrow> roundMV (of_nat n)
            | None \<Rightarrow> StrDecimalLiteral s))"

subsection \<open>Values\<close>

text \<open>
  What is thrown: the \<open>TypeError\<close> that \<open>assertType\<close> constructs, with its message; a
  \<open>TypeError\<close> raised by the host itself (its message is implementation-defined); a
  value thrown by user code (a getter or a predicate passed in).
\<close>

datatype error = TypeError jsstring | HostTypeError | Thrown

text \<open>The intrinsic prototype objects, named by their constructor.\<close>

datatype builtin =
  BObject | BFunction | BAsyncFunction | BArray | BDate | BRegExp | BMap | BSet | BPromise
  | BError | BBoolean | BNumber | BString | BSymbol | BBigInt

datatype propkey = PStr jsstring | PToStringTag

datatype 'v slots =
  Ordinary
  | ArrayExotic "'v list"
  | ParameterMap
  | Callable
  | ErrorData
  | BooleanData bool
  | NumberData number
  | StringData jsstring
  | SymbolData "jsstring option"
  | BigIntData int
  | DateValue number
  | RegExpMatcher
  | MapData "('v \<times> 'v) list"
  | SetData "'v list"
  | PromiseState

datatype 'v property =
  Data (enumerable: bool) 'v
  | Accessor (enumerable: bool) "error + 'v"

datatype 'v object =
  Object (slots: "'v slots") (props: "(propkey \<times> 'v property) list") (base: "builtin option")

datatype jsval =
  Undefined
  | Null
  | Bool (the_bool: bool)
  | Num (the_num: number)
  | Str (the_str: jsstring)
  | Sym "jsstring option"
  | BigInt int
  | Obj (the_obj: "jsval object")

type_synonym jsobj = "jsval object"

text \<open>The result of an operation that may throw.\<close>

type_synonym 'a completion = "error + 'a"

definition raises :: "'a completion \<Rightarrow> bool" where
  "raises r = (case r of Inl _ \<Rightarrow> True | Inr _ \<Rightarrow> False)"

subsection \<open>Host operations\<close>

definition IsCallable :: "jsval \<Rightarrow> bool" where
  "IsCallable v = (case v of Obj obj \<Rightarrow> slots obj = Callable | _ \<Rightarrow> False)"

definition typeof :: "jsval \<Rightarrow> jsstring" where
  "typeof v =
     (case v of
        Undefined \<Rightarrow> lit ''undefined''
      | Null \<Rightarrow> lit ''object''
      | Bool _ \<Rightarrow> lit ''boolean''
      | Num _ \<Rightarrow> lit ''number''
      | Str _ \<Rightarrow> lit ''string''
      | Sym _ \<Rightarrow> lit ''symbol''
      | BigInt _ \<Rightarrow> lit ''bigint''
      | Obj obj \<Rightarrow> if slots obj = Callable then lit ''function'' else lit ''object'')"

text \<open>\<open>value == null\<close>.\<close>

definition looselyNull :: "jsval \<Rightarrow> bool" where
  "looselyNull v \<longleftrightarrow> v = Null \<or> v = Undefined"

definition Array_isArray :: "jsval \<Rightarrow> bool" where
  "Array_isArray v =
     (case v of Obj obj \<Rightarrow> (case slots obj of ArrayExotic _ \<Rightarrow> True | _ \<Rightarrow> False) | _ \<Rightarrow> False)"

text \<open>The elements of an array, for \<open>value.length\<close> and \<open>value.every\<close> after \<open>Array.isArray\<close>.\<close>

definition elements :: "jsval \<Rightarrow> jsval list" where
  "elements v =
     (case v of Obj obj \<Rightarrow> (case slots obj of ArrayExotic es \<Rightarrow> es | _ \<Rightarrow> []) | _ \<Rightarrow> [])"

text \<open>The prototype chain from an intrinsic prototype on.\<close>

fun builtinChain :: "builtin \<Rightarrow> builtin list" where
  "builtinChain BObject = [BObject]"
| "builtinChain BAsyncFunction = [BAsyncFunction, BFunction, BObject]"
| "builtinChain b = [b, BObject]"

text \<open>
  \<open>value instanceof C\<close> for an intrinsic constructor \<open>C\<close> (\<open>OrdinaryHasInstance\<close>): the
  prototype chain of an object reaches \<open>C.prototype\<close>; false for every primitive. The
  walk asks each object of the chain for its prototype, which an ordinary object answers
  without running any code, so on the values of the model the operator returns.
\<close>

definition instanceof :: "jsval \<Rightarrow> builtin \<Rightarrow> bool" where
  "instanceof v C =
     (case v of
        Obj obj \<Rightarrow> (case base obj of None \<Rightarrow> False | Some b \<Rightarrow> C \<in> set (builtinChain b))
      | _ \<Rightarrow> False)"

definition builtinName :: "builtin \<Rightarrow> jsstring" where
  "builtinName b =
     (case b of
        BObject \<Rightarrow> lit ''Object'' | BFunction \<Rightarrow> lit ''Function''
      | BAsyncFunction \<Rightarrow> lit ''AsyncFunction'' | BArray \<Rightarrow> lit ''Array''
      | BDate \<Rightarrow> lit ''Date'' | BRegExp \<Rightarrow> lit ''RegExp'' | BMap \<Rightarrow> lit ''Map''
      | BSet \<Rightarrow> lit ''Set'' | BPromise \<Rightarrow> lit ''Promise'' | BError \<Rightarrow> lit ''Error''
      | BBoolean \<Rightarrow> lit ''Boolean'' | BNumber \<Rightarrow> lit ''Number'' | BString \<Rightarrow> lit ''String''
      | BSymbol \<Rightarrow> lit ''Symbol'' | BBigInt \<Rightarrow> lit ''BigInt'')"

text \<open>
  An intrinsic function as a value: a callable object with its \<open>name\<close>. The constructor
  found under \<open>constructor\<close> on an intrinsic prototype is such a value.
\<close>

definition intrinsicFunction :: "jsstring \<Rightarrow> jsval" where
  "intrinsicFunction name =
     Obj (Object Callable [(PStr (lit ''name''), Data False (Str name))] (Some BFunction))"

text \<open>
  The properties of the intrinsic prototypes that the library reads (\<open>constructor\<close>,
  \<open>then\<close>, \<open>size\<close>, \<open>name\<close>, \<open>@@toStringTag\<close>), read with the slots of the receiver:
  the \<open>size\<close> getters of \<open>Map.prototype\<close> and \<open>Set.prototype\<close> throw a \<open>TypeError\<close>
  on a receiver without the matching slot. \<open>None\<close>: the prototype has no such property.
\<close>

definition intrinsicProperty :: "jsval slots \<Rightarrow> builtin \<Rightarrow> propkey \<Rightarrow> jsval completion option" where
  "intrinsicProperty receiver b key =
     (if key = PStr (lit ''constructor'') then Some (Inr (intrinsicFunction (builtinName b)))
      else if key = PToStringTag then
        (if b = BMap \<or> b = BSet \<or> b = BPromise \<or> b = BSymbol \<or> b = BBigInt \<or> b = BAsyncFunction
         then Some (Inr (Str (builtinName b))) else None)
      else if key = PStr (lit ''then'') \<and> b = BPromise then Some (Inr (intrinsicFunction (lit ''then'')))
      else if key = PStr (lit ''size'') \<and> b = BMap then
        Some (case receiver of MapData es \<Rightarrow> Inr (Num (Finite (of_nat (length es)))) | _ \<Rightarrow> Inl HostTypeError)
      else if key = PStr (lit ''size'') \<and> b = BSet then
        Some (case receiver of SetData es \<Rightarrow> Inr (Num (Finite (of_nat (length es)))) | _ \<Rightarrow> Inl HostTypeError)
      else if key = PStr (lit ''name'') \<and> b = BFunction then Some (Inr (Str []))
      else if key = PStr (lit ''name'') \<and> b = BError then Some (Inr (Str (lit ''Error'')))
      else None)"

text \<open>The first prototype of a chain that has the property.\<close>

fun lookupChain :: "jsval slots \<Rightarrow> builtin list \<Rightarrow> propkey \<Rightarrow> jsval completion" where
  "lookupChain receiver [] key = Inr Undefined"
| "lookupChain receiver (b # bs) key =
     (case intrinsicProperty receiver b key of
        Some r \<Rightarrow> r
      | None \<Rightarrow> lookupChain receiver bs key)"

text \<open>
  \<open>O.[[Get]](key)\<close>: the object's properties first, then the intrinsic prototypes;
  \<open>undefined\<close> when nothing has the key; a getter may throw.
\<close>

definition Get :: "jsobj \<Rightarrow> propkey \<Rightarrow> jsval completion" where
  "Get obj key =
     (case map_of (props obj) key of
        Some (Data _ v) \<Rightarrow> Inr v
      | Some (Accessor _ r) \<Rightarrow> r
      | None \<Rightarrow>
          (case base obj of
             None \<Rightarrow> Inr Undefined
           | Some b \<Rightarrow> lookupChain (slots obj) (builtinChain b) key))"

text \<open>\<open>ToObject\<close>: a primitive is wrapped, \<open>undefined\<close> and \<open>null\<close> throw.\<close>

definition ToObject :: "jsval \<Rightarrow> jsobj completion" where
  "ToObject v =
     (case v of
        Undefined \<Rightarrow> Inl HostTypeError
      | Null \<Rightarrow> Inl HostTypeError
      | Bool b \<Rightarrow> Inr (Object (BooleanData b) [] (Some BBoolean))
      | Num n \<Rightarrow> Inr (Object (NumberData n) [] (Some BNumber))
      | Str s \<Rightarrow> Inr (Object (StringData s) [] (Some BString))
      | Sym d \<Rightarrow> Inr (Object (SymbolData d) [] (Some BSymbol))
      | BigInt i \<Rightarrow> Inr (Object (BigIntData i) [] (Some BBigInt))
      | Obj obj \<Rightarrow> Inr obj)"

text \<open>The property read \<open>value.key\<close> on any value (\<open>GetV\<close>).\<close>

definition GetV :: "jsval \<Rightarrow> propkey \<Rightarrow> jsval completion" where
  "GetV v key = (case ToObject v of Inl e \<Rightarrow> Inl e | Inr obj \<Rightarrow> Get obj key)"

text \<open>
  \<open>Object.keys\<close>: the own enumerable string keys. Arrays and String objects have their
  indices first.
\<close>

definition indexKeys :: "jsval slots \<Rightarrow> jsstring list" where
  "indexKeys s =
     (case s of
        ArrayExotic es \<Rightarrow> map decimal [0..<length es]
      | StringData str \<Rightarrow> map decimal [0..<length str]
      | _ \<Rightarrow> [])"

definition ownEnumerable :: "jsobj \<Rightarrow> propkey \<Rightarrow> bool" where
  "ownEnumerable obj key =
     (case key of
        PStr _ \<Rightarrow> (case map_of (props obj) key of Some p \<Rightarrow> enumerable p | None \<Rightarrow> False)
      | PToStringTag \<Rightarrow> False)"

definition Object_keys :: "jsval \<Rightarrow> jsstring list completion" where
  "Object_keys v =
     (case ToObject v of
        Inl e \<Rightarrow> Inl e
      | Inr obj \<Rightarrow>
          Inr (indexKeys (slots obj) @
               [s. PStr s \<leftarrow> filter (ownEnumerable obj) (remdups (map fst (props obj)))]))"

text \<open>The built-in tag that \<open>Object.prototype.toString\<close> derives from the slots.\<close>

definition builtinTag :: "jsval slots \<Rightarrow> jsstring" where
  "builtinTag s =
     (case s of
        ArrayExotic _ \<Rightarrow> lit ''Array''
      | ParameterMap \<Rightarrow> lit ''Arguments''
      | Callable \<Rightarrow> lit ''Function''
      | ErrorData \<Rightarrow> lit ''Error''
      | BooleanData _ \<Rightarrow> lit ''Boolean''
      | NumberData _ \<Rightarrow> lit ''Number''
      | StringData _ \<Rightarrow> lit ''String''
      | DateValue _ \<Rightarrow> lit ''Date''
      | RegExpMatcher \<Rightarrow> lit ''RegExp''
      | _ \<Rightarrow> lit ''Object'')"

text \<open>
  \<open>Object.prototype.toString.call(value)\<close>: the built-in tag, unless the object has a
  string under \<open>@@toStringTag\<close>. Reading that property may throw.
\<close>

definition Object_prototype_toString :: "jsval \<Rightarrow> jsstring completion" where
  "Object_prototype_toString v =
     (if v = Undefined then Inr (lit ''[object Undefined]'')
      else if v = Null then Inr (lit ''[object Null]'')
      else
        (case ToObject v of
           Inl e \<Rightarrow> Inl e
         | Inr obj \<Rightarrow>
             (case Get obj PToStringTag of
                Inl e \<Rightarrow> Inl e
              | Inr (Str tag) \<Rightarrow> Inr (lit ''[object '' @ tag @ lit '']'')
              | Inr _ \<Rightarrow> Inr (lit ''[object '' @ builtinTag (slots obj) @ lit '']''))))"

text \<open>
  \<open>Date.prototype.getTime\<close> called on a value: the time value of a Date object, a
  \<open>TypeError\<close> on any other receiver.
\<close>

definition Date_prototype_getTime :: "jsval \<Rightarrow> number completion" where
  "Date_prototype_getTime v =
     (case v of
        Obj obj \<Rightarrow> (case slots obj of DateValue t \<Rightarrow> Inr t | _ \<Rightarrow> Inl HostTypeError)
      | _ \<Rightarrow> Inl HostTypeError)"

text \<open>
  \<open>Array.prototype.every\<close> and \<open>Array.prototype.some\<close> over the elements of an array:
  in order, stopping at the first decisive element or at the first call that throws.
\<close>

fun every :: "('a \<Rightarrow> bool completion) \<Rightarrow> 'a list \<Rightarrow> bool completion" where
  "every p [] = Inr True"
| "every p (x # xs) =
     (case p x of Inl e \<Rightarrow> Inl e | Inr b \<Rightarrow> if b then every p xs else Inr False)"

fun some :: "('a \<Rightarrow> bool completion) \<Rightarrow> 'a list \<Rightarrow> bool completion" where
  "some p [] = Inr False"
| "some p (x # xs) =
     (case p x of Inl e \<Rightarrow> Inl e | Inr b \<Rightarrow> if b then Inr True else some p xs)"

subsection \<open>Regular expressions\<close>

text \<open>
  The two patterns of the library are sequences of character classes, each repeated a
  fixed number of times or at least once, between \<open>^\<close> and \<open>$\<close> without the multiline
  flag: \<open>test\<close> holds exactly when the whole string matches. A class is a list of
  code unit ranges.
\<close>

datatype atom = Class "(code_unit \<times> code_unit) list" | NotClass "(code_unit \<times> code_unit) list"

datatype quantifier = Times nat | OneOrMore

text \<open>
  \<open>Canonicalize\<close> under the \<open>i\<close> flag without the \<open>u\<close> flag: a code unit is mapped
  to its upper case. Only the ASCII letters are spelled out: a code unit from 128 on is
  never mapped to an ASCII one, and the classes used under \<open>i\<close> here are ASCII.
\<close>

definition Canonicalize :: "code_unit \<Rightarrow> code_unit" where
  "Canonicalize c = (if 0x61 \<le> c \<and> c \<le> 0x7A then c - 0x20 else c)"

definition inRanges :: "bool \<Rightarrow> (code_unit \<times> code_unit) list \<Rightarrow> code_unit \<Rightarrow> bool" where
  "inRanges ignoreCase rs c =
     (if ignoreCase then
        list_ex (\<lambda>(lo, hi). list_ex (\<lambda>a. Canonicalize (of_nat a) = Canonicalize c)
                              [unat lo..<Suc (unat hi)]) rs
      else list_ex (\<lambda>(lo, hi). lo \<le> c \<and> c \<le> hi) rs)"

definition atomMatches :: "bool \<Rightarrow> atom \<Rightarrow> code_unit \<Rightarrow> bool" where
  "atomMatches ignoreCase a c =
     (case a of Class rs \<Rightarrow> inRanges ignoreCase rs c | NotClass rs \<Rightarrow> \<not> inRanges ignoreCase rs c)"

fun regexTest :: "bool \<Rightarrow> (atom \<times> quantifier) list \<Rightarrow> jsstring \<Rightarrow> bool" where
  "regexTest i [] s = (s = [])"
| "regexTest i ((a, Times 0) # r) s = regexTest i r s"
| "regexTest i ((a, Times (Suc n)) # r) [] = False"
| "regexTest i ((a, Times (Suc n)) # r) (c # s) =
     (atomMatches i a c \<and> regexTest i ((a, Times n) # r) s)"
| "regexTest i ((a, OneOrMore) # r) [] = False"
| "regexTest i ((a, OneOrMore) # r) (c # s) =
     (atomMatches i a c \<and> (regexTest i ((a, OneOrMore) # r) s \<or> regexTest i r s))"

text \<open>The class \<open>\s\<close>, and a single character.\<close>

definition whiteSpaceRanges :: "(code_unit \<times> code_unit) list" where
  "whiteSpaceRanges =
     [(0x9, 0xD), (0x20, 0x20), (0xA0, 0xA0), (0x1680, 0x1680), (0x2000, 0x200A),
      (0x2028, 0x2029), (0x202F, 0x202F), (0x205F, 0x205F), (0x3000, 0x3000), (0xFEFF, 0xFEFF)]"

definition single :: "code_unit \<Rightarrow> atom" where
  "single c = Class [(c, c)]"

subsection \<open>Conversions to text and calls of user code\<close>

text \<open>
  What the host computes by implementation-defined algorithms or by running user code
  is a parameter of the model: the decimal rendering of a Number, the conversion of an
  object to a string (\<open>ToPrimitive\<close> calls its \<open>toString\<close> and \<open>valueOf\<close>), the JSON
  serialization of an object (it calls \<open>toJSON\<close> and getters, and throws on a cycle),
  whether the URL parser accepts a string, and the call of a function that the value
  carries under the name \<open>getTime\<close> or \<open>every\<close>. \<open>CallGetTime f this\<close> is the call
  of \<open>f\<close> without arguments followed by the conversion of its result to a Number, which
  \<open>isNaN\<close> applies; \<open>CallEvery f this p\<close> is the call of \<open>f\<close> with the predicate
  \<open>p\<close>, whose result is a boolean by the type of the method.
\<close>

record host =
  NumberToString :: "number \<Rightarrow> jsstring"
  ObjectToString :: "jsobj \<Rightarrow> jsstring completion"
  SerializeJSONObject :: "jsobj \<Rightarrow> jsstring option completion"
  URLParses :: "jsstring \<Rightarrow> bool"
  CallGetTime :: "jsval \<Rightarrow> jsval \<Rightarrow> number completion"
  CallEvery :: "jsval \<Rightarrow> jsval \<Rightarrow> (jsval \<Rightarrow> bool completion) \<Rightarrow> bool completion"

text \<open>
  The method calls \<open>value.getTime()\<close> and \<open>value.every(predicate)\<close>. A property of
  that name among those of the object is read and called through the host, a
  \<open>TypeError\<close> if it is not callable. Without one the lookup goes up the intrinsic
  prototypes: \<open>getTime\<close> is found exactly on \<open>Date.prototype\<close> and \<open>every\<close> exactly
  on \<open>Array.prototype\<close>; on any other chain, and on a primitive, the member is
  \<open>undefined\<close> and the call throws a \<open>TypeError\<close>. The library calls \<open>every\<close>
  only on an array, whose elements the intrinsic method visits.
\<close>

definition Invoke_getTime :: "host \<Rightarrow> jsval \<Rightarrow> number completion" where
  "Invoke_getTime h value =
     (case value of
        Obj obj \<Rightarrow>
          if map_of (props obj) (PStr (lit ''getTime'')) \<noteq> None then
            (case Get obj (PStr (lit ''getTime'')) of
               Inl e \<Rightarrow> Inl e
             | Inr f \<Rightarrow> if IsCallable f then CallGetTime h f value else Inl HostTypeError)
          else if instanceof value BDate then Date_prototype_getTime value
          else Inl HostTypeError
      | _ \<Rightarrow> Inl HostTypeError)"

definition Invoke_every :: "host \<Rightarrow> jsval \<Rightarrow> (jsval \<Rightarrow> bool completion) \<Rightarrow> bool completion" where
  "Invoke_every h value predicate =
     (case value of
        Obj obj \<Rightarrow>
          if map_of (props obj) (PStr (lit ''every'')) \<noteq> None then
            (case Get obj (PStr (lit ''every'')) of
               Inl e \<Rightarrow> Inl e
             | Inr f \<Rightarrow> if IsCallable f then CallEvery h f value predicate else Inl HostTypeError)
          else if instanceof value BArray then every predicate (elements value)
          else Inl HostTypeError
      | _ \<Rightarrow> Inl HostTypeError)"

text \<open>\<open>ToString\<close>, as a template literal applies it: a Symbol throws a \<open>TypeError\<close>.\<close>

definition ToString :: "host \<Rightarrow> jsval \<Rightarrow> jsstring completion" where
  "ToString h v =
     (case v of
        Undefined \<Rightarrow> Inr (lit ''undefined'')
      | Null \<Rightarrow> Inr (lit ''null'')
      | Bool b \<Rightarrow> Inr (if b then lit ''true'' else lit ''false'')
      | Num n \<Rightarrow> Inr (NumberToString h n)
      | Str s \<Rightarrow> Inr s
      | Sym _ \<Rightarrow> Inl HostTypeError
      | BigInt i \<Rightarrow> Inr (if i < 0 then 0x2D # decimal (nat (- i)) else decimal (nat i))
      | Obj obj \<Rightarrow> ObjectToString h obj)"

text \<open>
  \<open>QuoteJSONString\<close>: a backslash (\<open>0x5C\<close>) before the characters of the escape table,
  a four-digit escape for the other control characters and for lone surrogates.
\<close>

definition hexDigit :: "nat \<Rightarrow> code_unit" where
  "hexDigit d = (if d < 10 then of_nat (0x30 + d) else of_nat (0x61 + d - 10))"

definition UnicodeEscape :: "code_unit \<Rightarrow> jsstring" where
  "UnicodeEscape c =
     [0x5C, 0x75, hexDigit (unat c div 4096), hexDigit (unat c div 256 mod 16),
      hexDigit (unat c div 16 mod 16), hexDigit (unat c mod 16)]"

definition isLeadingSurrogate :: "code_unit \<Rightarrow> bool" where
  "isLeadingSurrogate c \<longleftrightarrow> 0xD800 \<le> c \<and> c \<le> 0xDBFF"

definition isTrailingSurrogate :: "code_unit \<Rightarrow> bool" where
  "isTrailingSurrogate c \<longleftrightarrow> 0xDC00 \<le> c \<and> c \<le> 0xDFFF"

definition quoteUnit :: "code_unit \<Rightarrow> jsstring" where
  "quoteUnit c =
     (if c = 0x8 then [0x5C, 0x62] else if c = 0x9 then [0x5C, 0x74]
      else if c = 0xA then [0x5C, 0x6E] else if c = 0xC then [0x5C, 0x66]
      else if c = 0xD then [0x5C, 0x72] else if c = 0x22 then [0x5C, 0x22]
      else if c = 0x5C then [0x5C, 0x5C]
      else if c < 0x20 \<or> isLeadingSurrogate c \<or> isTrailingSurrogate c then UnicodeEscape c
      else [c])"

fun quoteUnits :: "jsstring \<Rightarrow> jsstring" where
  "quoteUnits [] = []"
| "quoteUnits [c] = quoteUnit c"
| "quoteUnits (c # d # s) =
     (if isLeadingSurrogate c \<and> isTrailingSurrogate d then c # d # quoteUnits s
      else quoteUnit c @ quoteUnits (d # s))"

definition QuoteJSONString :: "jsstring \<Rightarrow> jsstring" where
  "QuoteJSONString s = 0x22 # quoteUnits s @ [0x22]"

text \<open>
  \<open>JSON.stringify(value)\<close> with one argument. \<open>Inr None\<close> is the result \<open>undefined\<close>:
  no text and no error. A BigInt throws a \<open>TypeError\<close>.
\<close>

definition JSON_stringify :: "host \<Rightarrow> jsval \<Rightarrow> jsstring option completion" where
  "JSON_stringify h v =
     (case v of
        Undefined \<Rightarrow> Inr None
      | Null \<Rightarrow> Inr (Some (lit ''null''))
      | Bool b \<Rightarrow> Inr (Some (if b then lit ''true'' else lit ''false''))
      | Num n \<Rightarrow> Inr (Some (if Number_isFinite n then NumberToString h n else lit ''null''))
      | Str s \<Rightarrow> Inr (Some (QuoteJSONString s))
      | Sym _ \<Rightarrow> Inr None
      | BigInt _ \<Rightarrow> Inl HostTypeError
      | Obj obj \<Rightarrow> SerializeJSONObject h obj)"

text \<open>\<open>new URL(s)\<close>: a \<open>TypeError\<close> when the parser rejects the string.\<close>

definition new_URL :: "host \<Rightarrow> jsstring \<Rightarrow> unit completion" where
  "new_URL h s = (if URLParses h s then Inr () else Inl HostTypeError)"

section \<open>The library\<close>

text \<open>
  The repository holds two versions of the library: the full one (\<open>part_001\<close>) and a
  shorter one (\<open>src/index.ts\<close>). The definitions of the full one keep the source's
  names; those of \<open>src/index.ts\<close> are prefixed with \<open>index_\<close>. Every function returns
  a completion, so that a host operation that throws inside it is a result of the model.

  A test \<open>typeof value === "number"\<close> narrows the value; the model then reads the
  payload with the selector (\<open>the_num\<close>, \<open>the_str\<close>). A strict equality with a primitive
  constant (\<open>=== 0\<close>, \<open>=== "AsyncFunction"\<close>) is the equality of the model.
\<close>

type_synonym predicate = "jsval \<Rightarrow> bool completion"

subsection \<open>Basic type checkers\<close>

definition isNumeric :: predicate where
  "isNumeric value =
     (if typeof value = lit ''number'' then Inr (Number_isFinite (the_num value))
      else if typeof value = lit ''string'' then
        (let trimmed = trim (the_str value)
         in Inr (trimmed \<noteq> [] \<and> Number_isFinite (StringToNumber trimmed)))
      else Inr False)"

definition isString :: predicate where
  "isString value = Inr (typeof value = lit ''string'')"

definition isNonEmptyString :: predicate where
  "isNonEmptyString value =
     Inr (typeof value = lit ''string'' \<and> length (trim (the_str value)) > 0)"

definition isBoolean :: predicate where
  "isBoolean value = Inr (typeof value = lit ''boolean'')"

definition isNumber :: predicate where
  "isNumber value = Inr (typeof value = lit ''number'' \<and> Number_isFinite (the_num value))"

definition isInteger :: predicate where
  "isInteger value = Inr (typeof value = lit ''number'' \<and> Number_isInteger (the_num value))"

definition isPositiveNumber :: predicate where
  "isPositiveNumber value =
     Inr (typeof value = lit ''number'' \<and> Number_isFinite (the_num value)
          \<and> greaterThanZero (the_num value))"

definition isBigInt :: predicate where
  "isBigInt value = Inr (typeof value = lit ''bigint'')"

definition isSymbol :: predicate where
  "isSymbol value = Inr (typeof value = lit ''symbol'')"

subsection \<open>Complex type checkers\<close>

definition isArray :: predicate where
  "isArray value = Inr (Array_isArray value)"

definition isNonEmptyArray :: predicate where
  "isNonEmptyArray value = Inr (Array_isArray value \<and> length (elements value) > 0)"

text \<open>\<^verbatim>\<open>return Object.prototype.toString.call(value) === "[object Object]";\<close>\<close>

definition isObject :: predicate where
  "isObject value =
     (case Object_prototype_toString value of
        Inl e \<Rightarrow> Inl e
      | Inr tag \<Rightarrow> Inr (tag = lit ''[object Object]''))"

definition isNonEmptyObject :: predicate where
  "isNonEmptyObject value =
     (case isObject value of
        Inl e \<Rightarrow> Inl e
      | Inr b \<Rightarrow>
          if b then
            (case Object_keys value of Inl e \<Rightarrow> Inl e | Inr ks \<Rightarrow> Inr (length ks > 0))
          else Inr False)"

text \<open>\<^verbatim>\<open>return value instanceof Date && !isNaN(value.getTime());\<close>\<close>

definition isDate :: "host \<Rightarrow> predicate" where
  "isDate h value =
     (if instanceof value BDate then
        (case Invoke_getTime h value of
           Inl e \<Rightarrow> Inl e
         | Inr t \<Rightarrow> Inr (\<not> Number_isNaN t))
      else Inr False)"

definition isRegExp :: predicate where
  "isRegExp value = Inr (instanceof value BRegExp)"

definition isMap :: predicate where
  "isMap value = Inr (instanceof value BMap)"

definition isSet :: predicate where
  "isSet value = Inr (instanceof value BSet)"

definition isFunction :: predicate where
  "isFunction value = Inr (typeof value = lit ''function'')"

text \<open>\<^verbatim>\<open>typeof value === "function" && value.constructor.name === "AsyncFunction"\<close>\<close>

definition isAsyncFunction :: predicate where
  "isAsyncFunction value =
     (if typeof value = lit ''function'' then
        (case GetV value (PStr (lit ''constructor'')) of
           Inl e \<Rightarrow> Inl e
         | Inr c \<Rightarrow>
             (case GetV c (PStr (lit ''name'')) of
                Inl e \<Rightarrow> Inl e
              | Inr n \<Rightarrow> Inr (n = Str (lit ''AsyncFunction''))))
      else Inr False)"

text \<open>
  \<^verbatim>\<open>value instanceof Promise ||
  (typeof value === "object" && value !== null && typeof (value as any).then === "function")\<close>
\<close>

definition isPromise :: predicate where
  "isPromise value =
     (if instanceof value BPromise then Inr True
      else if typeof value = lit ''object'' \<and> value \<noteq> Null then
        (case GetV value (PStr (lit ''then'')) of
           Inl e \<Rightarrow> Inl e
         | Inr t \<Rightarrow> Inr (typeof t = lit ''function''))
      else Inr False)"

subsection \<open>Null and undefined checkers\<close>

definition isNull :: predicate where
  "isNull value = Inr (value = Null)"

definition isUndefined :: predicate where
  "isUndefined value = Inr (value = Undefined)"

definition isNullish :: predicate where
  "isNullish value = Inr (looselyNull value)"

definition isDefined :: predicate where
  "isDefined value = Inr (\<not> looselyNull value)"

subsection \<open>Emptiness checkers\<close>

definition isEmpty :: predicate where
  "isEmpty value =
     (if looselyNull value then Inr True
      else if typeof value = lit ''string'' then Inr (length (trim (the_str value)) = 0)
      else if Array_isArray value then Inr (length (elements value) = 0)
      else if instanceof value BMap \<or> instanceof value BSet then
        (case GetV value (PStr (lit ''size'')) of
           Inl e \<Rightarrow> Inl e
         | Inr sz \<Rightarrow> Inr (sz = Num (Finite 0)))
      else
        (case isObject value of
           Inl e \<Rightarrow> Inl e
         | Inr b \<Rightarrow>
             if b then
               (case Object_keys value of Inl e \<Rightarrow> Inl e | Inr ks \<Rightarrow> Inr (length ks = 0))
             else Inr False))"

definition isNotEmpty :: predicate where
  "isNotEmpty value = (case isEmpty value of Inl e \<Rightarrow> Inl e | Inr b \<Rightarrow> Inr (\<not> b))"

subsection \<open>Advanced type checkers\<close>

text \<open>\<^verbatim>\<open>try { new URL(value); return true; } catch { return false; }\<close>\<close>

definition isUrl :: "host \<Rightarrow> predicate" where
  "isUrl h value =
     (if typeof value \<noteq> lit ''string'' then Inr False
      else (case new_URL h (the_str value) of Inl _ \<Rightarrow> Inr False | Inr _ \<Rightarrow> Inr True))"

text \<open>\<^verbatim>\<open>/^[^\s@]+@[^\s@]+\.[^\s@]+$/\<close>\<close>

definition emailRegex :: "(atom \<times> quantifier) list" where
  "emailRegex =
     [(NotClass (whiteSpaceRanges @ [(0x40, 0x40)]), OneOrMore), (single 0x40, Times 1),
      (NotClass (whiteSpaceRanges @ [(0x40, 0x40)]), OneOrMore), (single 0x2E, Times 1),
      (NotClass (whiteSpaceRanges @ [(0x40, 0x40)]), OneOrMore)]"

definition isEmail :: predicate where
  "isEmail value =
     (if typeof value \<noteq> lit ''string'' then Inr False
      else Inr (regexTest False emailRegex (the_str value)))"

text \<open>
  \<^verbatim>\<open>/^[0-9a-f]{8}-[0-9a-f]{4}-[1-5][0-9a-f]{3}-[89ab][0-9a-f]{3}-[0-9a-f]{12}$/i\<close>
\<close>

definition hexClass :: atom where
  "hexClass = Class [(0x30, 0x39), (0x61, 0x66)]"

definition uuidRegex :: "(atom \<times> quantifier) list" where
  "uuidRegex =
     [(hexClass, Times 8), (single 0x2D, Times 1),
      (hexClass, Times 4), (single 0x2D, Times 1),
      (Class [(0x31, 0x35)], Times 1), (hexClass, Times 3), (single 0x2D, Times 1),
      (Class [(0x38, 0x38), (0x39, 0x39), (0x61, 0x61), (0x62, 0x62)], Times 1),
      (hexClass, Times 3), (single 0x2D, Times 1),
      (hexClass, Times 12)]"

definition isUuid :: predicate where
  "isUuid value =
     (if typeof value \<noteq> lit ''string'' then Inr False
      else Inr (regexTest True uuidRegex (the_str value)))"

definition isPrimitive :: predicate where
  "isPrimitive value =
     (let type = typeof value
      in Inr (looselyNull value \<or> type = lit ''string'' \<or> type = lit ''number''
              \<or> type = lit ''boolean'' \<or> type = lit ''symbol'' \<or> type = lit ''bigint''))"

text \<open>\<^verbatim>\<open>try { JSON.stringify(value); return true; } catch { return false; }\<close>\<close>

definition isJsonSerializable :: "host \<Rightarrow> predicate" where
  "isJsonSerializable h value =
     (case JSON_stringify h value of Inl _ \<Rightarrow> Inr False | Inr _ \<Rightarrow> Inr True)"

subsection \<open>Utility functions\<close>

definition getType :: "jsval \<Rightarrow> jsstring completion" where
  "getType value =
     (if value = Null then Inr (lit ''null'')
      else if value = Undefined then Inr (lit ''undefined'')
      else if Array_isArray value then Inr (lit ''array'')
      else if instanceof value BDate then Inr (lit ''date'')
      else if instanceof value BRegExp then Inr (lit ''regexp'')
      else if instanceof value BMap then Inr (lit ''map'')
      else if instanceof value BSet then Inr (lit ''set'')
      else if instanceof value BPromise then Inr (lit ''promise'')
      else Inr (typeof value))"

text \<open>
  \<^verbatim>\<open>if (!predicate(value)) {
    throw new TypeError(message || `Type assertion failed for value: ${value}`);
  }\<close>
  The optional \<open>message\<close> is \<open>None\<close> when the argument is absent. The operator \<open>||\<close>
  takes its right operand when the left one is \<open>undefined\<close> or the empty string, and
  only then is the template literal evaluated, which converts the value to a string.
\<close>

definition defaultMessage :: "host \<Rightarrow> jsval \<Rightarrow> jsstring completion" where
  "defaultMessage h value =
     (case ToString h value of
        Inl e \<Rightarrow> Inl e
      | Inr s \<Rightarrow> Inr (lit ''Type assertion failed for value: '' @ s))"

definition assertType :: "host \<Rightarrow> jsval \<Rightarrow> predicate \<Rightarrow> jsstring option \<Rightarrow> unit completion" where
  "assertType h value predicate message =
     (case predicate value of
        Inl e \<Rightarrow> Inl e
      | Inr holds \<Rightarrow>
          if \<not> holds then
            (case (case message of
                     None \<Rightarrow> defaultMessage h value
                   | Some m \<Rightarrow> if m \<noteq> [] then Inr m else defaultMessage h value) of
               Inl e \<Rightarrow> Inl e
             | Inr m \<Rightarrow> Inl (TypeError m))
          else Inr ())"

subsection \<open>Composite checkers\<close>

text \<open>\<^verbatim>\<open>return Array.isArray(value) && value.every(predicate);\<close>\<close>

definition isArrayOf :: "host \<Rightarrow> jsval \<Rightarrow> predicate \<Rightarrow> bool completion" where
  "isArrayOf h value predicate =
     (if Array_isArray value then Invoke_every h value predicate else Inr False)"

definition isStringArray :: "host \<Rightarrow> predicate" where
  "isStringArray h value = isArrayOf h value isString"

definition isNumberArray :: "host \<Rightarrow> predicate" where
  "isNumberArray h value = isArrayOf h value isNumber"

text \<open>
  \<^verbatim>\<open>return predicates.some((predicate) => predicate(value));\<close>
  The rest parameter \<open>predicates\<close> is a fresh array, whose \<open>some\<close> is the intrinsic one.
\<close>

definition isOneOf :: "predicate list \<Rightarrow> predicate" where
  "isOneOf predicates = (\<lambda>value. some (\<lambda>predicate. predicate value) predicates)"

subsection \<open>The version of \<open>src/index.ts\<close>\<close>

text \<open>
  \<^verbatim>\<open>try { ... } catch {} return d;\<close> where the body returns a value (\<open>Some\<close>), falls
  through (\<open>None\<close>) or throws.
\<close>

definition tryCatch :: "bool option completion \<Rightarrow> bool \<Rightarrow> bool completion" where
  "tryCatch body d = Inr (case body of Inl _ \<Rightarrow> d | Inr None \<Rightarrow> d | Inr (Some b) \<Rightarrow> b)"

definition index_isNumeric :: predicate where
  "index_isNumeric value =
     tryCatch
       (if typeof value = lit ''number'' then Inr (Some (Number_isFinite (the_num value)))
        else if typeof value = lit ''string'' \<and> trim (the_str value) \<noteq> [] then
          Inr (Some (Number_isFinite (StringToNumber (the_str value))))
        else Inr None)
       False"

definition index_isString :: predicate where
  "index_isString value = Inr (typeof value = lit ''string'')"

definition index_isBoolean :: predicate where
  "index_isBoolean value = Inr (typeof value = lit ''boolean'')"

definition index_isArray :: predicate where
  "index_isArray value = Inr (Array_isArray value)"

text \<open>\<^verbatim>\<open>return value !== null && typeof value === 'object' && !Array.isArray(value);\<close>\<close>

definition index_isObject :: predicate where
  "index_isObject value =
     Inr (value \<noteq> Null \<and> typeof value = lit ''object'' \<and> \<not> Array_isArray value)"

text \<open>\<^verbatim>\<open>return value instanceof Date && !isNaN(value.getTime());\<close>\<close>

definition index_isDate :: "host \<Rightarrow> predicate" where
  "index_isDate h value =
     (if instanceof value BDate then
        (case Invoke_getTime h value of
           Inl e \<Rightarrow> Inl e
         | Inr t \<Rightarrow> Inr (\<not> Number_isNaN t))
      else Inr False)"

definition index_isFunction :: predicate where
  "index_isFunction value = Inr (typeof value = lit ''function'')"

definition index_isNull :: predicate where
  "index_isNull value = Inr (value = Null)"

definition index_isUndefined :: predicate where
  "index_isUndefined value = Inr (value = Undefined)"

text \<open>
  \<^verbatim>\<open>try {
    if (value == null) return true;
    if (typeof value === 'string' || Array.isArray(value)) return value.length === 0;
    if (value instanceof Map || value instanceof Set) return value.size === 0;
    if (typeof value === 'object') return Object.keys(value).length === 0;
  } catch {}
  return false;\<close>
\<close>

definition index_isEmpty :: predicate where
  "index_isEmpty value =
     tryCatch
       (if looselyNull value then Inr (Some True)
        else if typeof value = lit ''string'' then Inr (Some (length (the_str value) = 0))
        else if Array_isArray value then Inr (Some (length (elements value) = 0))
        else if instanceof value BMap \<or> instanceof value BSet then
          (case GetV value (PStr (lit ''size'')) of
             Inl e \<Rightarrow> Inl e
           | Inr sz \<Rightarrow> Inr (Some (sz = Num (Finite 0))))
        else if typeof value = lit ''object'' then
          (case Object_keys value of
             Inl e \<Rightarrow> Inl e
           | Inr ks \<Rightarrow> Inr (Some (length ks = 0)))
        else Inr None)
       False"

section \<open>Sample values and auxiliary notions\<close>

text \<open>Values that the claims and their counterexamples name, with the expression of the
  source language that builds each.\<close>

definition emptyObject :: jsval where \<comment> \<open>\<^verbatim>\<open>{}\<close>\<close>
  "emptyObject = Obj (Object Ordinary [] (Some BObject))"

definition objectWithA :: jsval where \<comment> \<open>\<^verbatim>\<open>{a: 1}\<close>\<close>
  "objectWithA =
     Obj (Object Ordinary [(PStr (lit ''a''), Data True (Num (Finite 1)))] (Some BObject))"

definition emptyArray :: jsval where \<comment> \<open>\<^verbatim>\<open>[]\<close>\<close>
  "emptyArray = Obj (Object (ArrayExotic []) [] (Some BArray))"

definition arrayWithOne :: jsval where \<comment> \<open>\<^verbatim>\<open>[1]\<close>\<close>
  "arrayWithOne = Obj (Object (ArrayExotic [Num (Finite 1)]) [] (Some BArray))"

definition epochDate :: jsval where \<comment> \<open>\<^verbatim>\<open>new Date(0)\<close>\<close>
  "epochDate = Obj (Object (DateValue (Finite 0)) [] (Some BDate))"

definition sampleRegExp :: jsval where \<comment> \<open>\<^verbatim>\<open>/a/\<close>\<close>
  "sampleRegExp =
     Obj (Object RegExpMatcher [(PStr (lit ''lastIndex''), Data False (Num (Finite 0)))]
       (Some BRegExp))"

definition plainFunction :: jsval where \<comment> \<open>\<^verbatim>\<open>function () {}\<close>\<close>
  "plainFunction = Obj (Object Callable [] (Some BFunction))"

definition thenableFunction :: jsval where
  \<comment> \<open>\<^verbatim>\<open>Object.assign(function () {}, { then: function () {} })\<close>\<close>
  "thenableFunction =
     Obj (Object Callable [(PStr (lit ''then''), Data True plainFunction)] (Some BFunction))"

definition thenableObject :: jsval where \<comment> \<open>\<^verbatim>\<open>{ then: function () {} }\<close>\<close>
  "thenableObject =
     Obj (Object Ordinary [(PStr (lit ''then''), Data True plainFunction)] (Some BObject))"

definition taggedArray :: jsval where
  \<comment> \<open>\<^verbatim>\<open>Object.assign([], { [Symbol.toStringTag]: "Object" })\<close>\<close>
  "taggedArray =
     Obj (Object (ArrayExotic []) [(PToStringTag, Data True (Str (lit ''Object'')))]
       (Some BArray))"

definition functionWithoutConstructor :: jsval where
  \<comment> \<open>\<^verbatim>\<open>Object.assign(function () {}, { constructor: null })\<close>\<close>
  "functionWithoutConstructor =
     Obj (Object Callable [(PStr (lit ''constructor''), Data True Null)] (Some BFunction))"

definition mapPrototypeChild :: jsval where \<comment> \<open>\<^verbatim>\<open>Object.create(Map.prototype)\<close>\<close>
  "mapPrototypeChild = Obj (Object Ordinary [] (Some BMap))"

definition hiddenPropertyObject :: jsval where
  \<comment> \<open>\<^verbatim>\<open>Object.defineProperty({}, "a", { value: 1 })\<close>\<close>
  "hiddenPropertyObject =
     Obj (Object Ordinary [(PStr (lit ''a''), Data False (Num (Finite 1)))] (Some BObject))"

text \<open>
  A host for evaluating the model on inputs where none of its functions decides the
  result.
\<close>

definition exampleHost :: host where
  "exampleHost =
     \<lparr>NumberToString = (\<lambda>n. []), ObjectToString = (\<lambda>obj. Inl Thrown),
      SerializeJSONObject = (\<lambda>obj. Inl Thrown), URLParses = (\<lambda>s. False),
      CallGetTime = (\<lambda>f this. Inl Thrown), CallEvery = (\<lambda>f this p. Inl Thrown)\<rparr>"

text \<open>
  The values on which no property read and no method call of the library can throw:
  every primitive, and every object such that no getter of it throws, that has no
  \<open>getTime\<close> and no \<open>every\<close> among its properties, that inherits its \<open>constructor\<close>
  from an intrinsic prototype if it is a function, that inherits from
  \<open>Array.prototype\<close> if it is an array, and that has the slot of a Date, a Map or a
  Set if it inherits from the prototype of one. The properties of an object include
  those inherited from user-defined prototypes.
\<close>

definition getterThrows :: "jsval property \<Rightarrow> bool" where
  "getterThrows p = (case p of Accessor _ (Inl _) \<Rightarrow> True | _ \<Rightarrow> False)"

definition benign :: "jsval \<Rightarrow> bool" where
  "benign v =
     (case v of
        Obj obj \<Rightarrow>
          \<not> list_ex (\<lambda>(k, p). getterThrows p) (props obj)
          \<and> map_of (props obj) (PStr (lit ''getTime'')) = None
          \<and> map_of (props obj) (PStr (lit ''every'')) = None
          \<and> (slots obj = Callable \<longrightarrow>
               base obj \<noteq> None \<and> map_of (props obj) (PStr (lit ''constructor'')) = None)
          \<and> (Array_isArray v \<longrightarrow> instanceof v BArray)
          \<and> (instanceof v BDate \<longrightarrow> (case slots obj of DateValue _ \<Rightarrow> True | _ \<Rightarrow> False))
          \<and> (instanceof v BMap \<longrightarrow> (case slots obj of MapData _ \<Rightarrow> True | _ \<Rightarrow> False))
          \<and> (instanceof v BSet \<longrightarrow> (case slots obj of SetData _ \<Rightarrow> True | _ \<Rightarrow> False))
      | _ \<Rightarrow> True)"

section \<open>Facts about the host operations\<close>

lemma typeof_number: "typeof v = lit ''number'' \<longleftrightarrow> (\<exists>n. v = Num n)"
  by (cases v) (simp_all add: typeof_def lit_def)

lemma typeof_string: "typeof v = lit ''string'' \<longleftrightarrow> (\<exists>s. v = Str s)"
  by (cases v) (simp_all add: typeof_def lit_def)

lemma typeof_function: "typeof v = lit ''function'' \<longleftrightarrow> IsCallable v"
  by (cases v) (simp_all add: typeof_def lit_def IsCallable_def)

lemma typeof_object:
  "typeof v = lit ''object'' \<longleftrightarrow> v = Null \<or> (\<exists>obj. v = Obj obj \<and> slots obj \<noteq> Callable)"
  by (cases v) (simp_all add: typeof_def lit_def)

text \<open>Trimming twice is trimming once: the result has no white space at either end.\<close>

lemma trim_idem: "trim (trim s) = trim s"
proof -
  define t where "t = dropWhile isWhiteSpace s"
  define u where "u = rev (dropWhile isWhiteSpace (rev t))"
  have tu: "t = u @ rev (takeWhile isWhiteSpace (rev t))"
    unfolding u_def by (metis rev_append rev_rev_ident takeWhile_dropWhile_id)
  have front: "dropWhile isWhiteSpace u = u"
  proof (cases "u = []")
    case False
    then have "t \<noteq> []" using tu by auto
    then have "\<not> isWhiteSpace (hd t)" unfolding t_def by (rule hd_dropWhile)
    moreover have "hd t = hd u" using tu False by (metis hd_append2)
    ultimately show ?thesis by (simp add: dropWhile_eq_self_iff)
  qed simp
  have rear: "dropWhile isWhiteSpace (rev u) = rev u" unfolding u_def by simp
  have "trim s = u" by (simp add: trim_def t_def u_def)
  moreover have "trim u = u" by (simp add: trim_def front rear)
  ultimately show ?thesis by simp
qed

lemma trim_spaces: "trim (lit ''   '') = []"
  by (simp add: trim_def lit_def isWhiteSpace_def)

section \<open>Emptiness\<close>

lemma isEmpty_Str: "isEmpty (Str s) = Inr (trim s = [])"
  by (simp add: isEmpty_def looselyNull_def typeof_string)

lemma index_isEmpty_Str: "index_isEmpty (Str s) = Inr (s = [])"
  by (simp add: index_isEmpty_def tryCatch_def looselyNull_def typeof_string)

text \<open>
  Claim C9. The two implementations of \<open>isEmpty\<close> are not extensionally equal: there is
  a value on which the one of \<open>src/index.ts\<close> and the one of the full library return
  different results (the string of three spaces is such a value).
\<close>

theorem isEmpty_versions_differ: "\<exists>v. index_isEmpty v \<noteq> isEmpty v"
proof
  show "index_isEmpty (Str (lit ''   '')) \<noteq> isEmpty (Str (lit ''   ''))"
    by (simp add: isEmpty_Str index_isEmpty_Str trim_spaces) (simp add: lit_def)
qed

text \<open>
  Claim C3. For every value \<open>x\<close>, \<open>isNotEmpty(x)\<close> is the negation of \<open>isEmpty(x)\<close>:
  it returns true exactly when \<open>isEmpty\<close> returns false, false exactly when \<open>isEmpty\<close>
  returns true, and it has no result of its own when \<open>isEmpty\<close> has none.
\<close>

theorem isNotEmpty_complement:
  "(isNotEmpty x = Inr True \<longleftrightarrow> isEmpty x = Inr False)
   \<and> (isNotEmpty x = Inr False \<longleftrightarrow> isEmpty x = Inr True)
   \<and> (isNotEmpty x = Inl e \<longleftrightarrow> isEmpty x = Inl e)"
  by (cases "isEmpty x") (auto simp: isNotEmpty_def)

section \<open>JSON serializability\<close>

text \<open>
  Claim C10. \<open>isJsonSerializable\<close> returns true for every symbol and for \<open>undefined\<close>:
  the serializer returns \<open>undefined\<close> for them without raising, and the predicate
  reports true whenever the serialization does not raise, also when it yields no text.
\<close>

theorem isJsonSerializable_without_text:
  "JSON_stringify h (Sym d) = Inr None
   \<and> JSON_stringify h Undefined = Inr None
   \<and> isJsonSerializable h (Sym d) = Inr True
   \<and> isJsonSerializable h Undefined = Inr True
   \<and> isJsonSerializable h v = Inr (\<not> raises (JSON_stringify h v))"
  by (cases "JSON_stringify h v")
    (simp_all add: isJsonSerializable_def JSON_stringify_def raises_def)

section \<open>Numeric values\<close>

lemma StringToNumber_trim: "StringToNumber (trim s) = StringToNumber s"
  by (simp add: StringToNumber_def trim_idem)

lemma isNumeric_Num: "isNumeric (Num n) = Inr (Number_isFinite n)"
  by (simp add: isNumeric_def typeof_number)

lemma isNumeric_Str:
  "isNumeric (Str s) = Inr (trim s \<noteq> [] \<and> Number_isFinite (StringToNumber (trim s)))"
  by (simp add: isNumeric_def typeof_number typeof_string Let_def)

lemma isNumeric_other:
  "(\<forall>n. v \<noteq> Num n) \<Longrightarrow> (\<forall>s. v \<noteq> Str s) \<Longrightarrow> isNumeric v = Inr False"
  by (simp add: isNumeric_def typeof_number typeof_string)

lemma isNumeric_cases:
  "isNumeric v =
     Inr ((\<exists>n. v = Num n \<and> Number_isFinite n)
          \<or> (\<exists>s. v = Str s \<and> trim s \<noteq> [] \<and> Number_isFinite (StringToNumber (trim s))))"
  by (cases v) (simp_all add: isNumeric_Num isNumeric_Str isNumeric_other)

text \<open>
  The version of \<open>src/index.ts\<close> converts the untrimmed string; the conversion skips
  the white space itself, so the two versions agree on every value.
\<close>

lemma index_isNumeric_eq: "index_isNumeric v = isNumeric v"
  by (cases v)
    (simp_all add: index_isNumeric_def isNumeric_def tryCatch_def typeof_number typeof_string
      StringToNumber_trim Let_def)

lemmas parse_defs = StringToNumber_def trim_def lit_def isWhiteSpace_def
  NonDecimalIntegerLiteral_def StrDecimalLiteral_def StrUnsignedDecimalLiteral_def
  ExponentPart_def isDecimalDigit_def digitsValue_def hexDigitValue_def roundMV_def
  isHexDigit_def Let_def

lemma StringToNumber_123: "StringToNumber (lit ''123'') = Finite 123"
  by (simp add: parse_defs)

lemma StringToNumber_scientific: "StringToNumber (lit ''12.5e2'') = Finite 1250"
  by (simp add: parse_defs)

lemma StringToNumber_abc: "StringToNumber (lit ''abc'') = NaN"
  by (simp add: parse_defs)

lemma trim_examples:
  "trim (lit ''123'') = lit ''123''"
  "trim (lit ''12.5e2'') = lit ''12.5e2''"
  "trim (lit ''abc'') = lit ''abc''"
  by (simp_all add: trim_def lit_def isWhiteSpace_def)

text \<open>
  Claim C4. For every value \<open>v\<close>, \<open>isNumeric(v)\<close> returns true iff \<open>v\<close> is a finite
  number, or \<open>v\<close> is a string whose trimmed form is non-empty and converts to a finite
  number under the host's string-to-number conversion. Both versions of the function
  do so. In particular \<open>isNumeric("123")\<close> and \<open>isNumeric("12.5e2")\<close> are true, and
  \<open>isNumeric("abc")\<close>, \<open>isNumeric(Infinity)\<close> and \<open>isNumeric(NaN)\<close> are false.
\<close>

theorem isNumeric_finite_number_or_numeric_string:
  "isNumeric v =
     Inr ((\<exists>n. v = Num n \<and> Number_isFinite n)
          \<or> (\<exists>s. v = Str s \<and> trim s \<noteq> [] \<and> Number_isFinite (StringToNumber (trim s))))
   \<and> index_isNumeric v = isNumeric v
   \<and> isNumeric (Str (lit ''123'')) = Inr True
   \<and> isNumeric (Str (lit ''12.5e2'')) = Inr True
   \<and> isNumeric (Str (lit ''abc'')) = Inr False
   \<and> isNumeric (Num PosInfinity) = Inr False
   \<and> isNumeric (Num NaN) = Inr False"
proof (intro conjI)
  show "isNumeric v =
     Inr ((\<exists>n. v = Num n \<and> Number_isFinite n)
          \<or> (\<exists>s. v = Str s \<and> trim s \<noteq> [] \<and> Number_isFinite (StringToNumber (trim s))))"
    by (rule isNumeric_cases)
  show "index_isNumeric v = isNumeric v"
    by (rule index_isNumeric_eq)
  show "isNumeric (Str (lit ''123'')) = Inr True"
    by (simp add: isNumeric_Str trim_examples StringToNumber_123 Number_isFinite_def)
      (simp add: lit_def)
  show "isNumeric (Str (lit ''12.5e2'')) = Inr True"
    by (simp add: isNumeric_Str trim_examples StringToNumber_scientific Number_isFinite_def)
      (simp add: lit_def)
  show "isNumeric (Str (lit ''abc'')) = Inr False"
    by (simp add: isNumeric_Str trim_examples StringToNumber_abc Number_isFinite_def)
  show "isNumeric (Num PosInfinity) = Inr False"
    by (simp add: isNumeric_Num Number_isFinite_def)
  show "isNumeric (Num NaN) = Inr False"
    by (simp add: isNumeric_Num Number_isFinite_def)
qed

section \<open>UUID strings\<close>

text \<open>
  Under the \<open>i\<close> flag a class matches a code unit when their canonical forms agree, so
  the class \<open>[0-9a-f]\<close> matches the hexadecimal digits of either case.
\<close>

lemma Canonicalize_ascii_upper:
  "0x41 \<le> x \<Longrightarrow> x \<le> 0x5A \<Longrightarrow> Canonicalize c = x \<longleftrightarrow> c = x \<or> c = x + 0x20"
  by (auto simp: Canonicalize_def word_le_nat_alt word_less_nat_alt unat_sub unat_word_ariths)

lemma Canonicalize_ascii_other:
  "x < 0x41 \<Longrightarrow> Canonicalize c = x \<longleftrightarrow> c = x"
  by (auto simp: Canonicalize_def word_le_nat_alt word_less_nat_alt unat_sub unat_word_ariths)

lemma isHexDigit_enum:
  "isHexDigit c \<longleftrightarrow>
     c = 48 \<or> c = 49 \<or> c = 50 \<or> c = 51 \<or> c = 52 \<or> c = 53 \<or> c = 54 \<or> c = 55 \<or>
     c = 56 \<or> c = 57 \<or> c = 65 \<or> c = 66 \<or> c = 67 \<or> c = 68 \<or> c = 69 \<or> c = 70 \<or>
     c = 97 \<or> c = 98 \<or> c = 99 \<or> c = 100 \<or> c = 101 \<or> c = 102"
  unfolding isHexDigit_def isDecimalDigit_def word_le_nat_alt word_unat_eq_iff
  by simp arith

lemmas class_defs = atomMatches_def inRanges_def upt_rec Canonicalize_def [of "numeral n" for n]
  Canonicalize_ascii_upper Canonicalize_ascii_other

lemma hexClass_ignoreCase: "atomMatches True hexClass c \<longleftrightarrow> isHexDigit c"
  unfolding isHexDigit_enum by (simp add: hexClass_def class_defs) blast

lemma hyphen_ignoreCase: "atomMatches True (single 0x2D) c \<longleftrightarrow> c = 0x2D"
  by (simp add: single_def class_defs)

lemma version_ignoreCase:
  "atomMatches True (Class [(0x31, 0x35)]) c \<longleftrightarrow> c \<in> set (lit ''12345'')"
  by (simp add: class_defs lit_def)

lemma variant_ignoreCase:
  "atomMatches True (Class [(0x38, 0x38), (0x39, 0x39), (0x61, 0x61), (0x62, 0x62)]) c
     \<longleftrightarrow> c \<in> set (lit ''89abAB'')"
  by (simp add: class_defs lit_def) blast

lemma version_is_hex: "x \<in> set (lit ''12345'') \<Longrightarrow> isHexDigit x"
  by (auto simp: lit_def isHexDigit_def isDecimalDigit_def)

lemma variant_is_hex: "y \<in> set (lit ''89abAB'') \<Longrightarrow> isHexDigit y"
  by (auto simp: lit_def isHexDigit_def isDecimalDigit_def)

text \<open>A class repeated \<open>n\<close> times consumes exactly \<open>n\<close> code units of the class.\<close>

lemma regexTest_Times:
  "regexTest i ((a, Times n) # r) s \<longleftrightarrow>
     n \<le> length s \<and> list_all (atomMatches i a) (take n s) \<and> regexTest i r (drop n s)"
proof (induction n arbitrary: s)
  case 0
  then show ?case by simp
next
  case (Suc n)
  then show ?case by (cases s) auto
qed

lemma regexTest_group:
  "regexTest i ((a, Times n) # r) s \<longleftrightarrow>
     (\<exists>g t. s = g @ t \<and> length g = n \<and> list_all (atomMatches i a) g \<and> regexTest i r t)"
proof
  assume "regexTest i ((a, Times n) # r) s"
  then have "s = take n s @ drop n s \<and> length (take n s) = n
      \<and> list_all (atomMatches i a) (take n s) \<and> regexTest i r (drop n s)"
    by (simp add: regexTest_Times)
  then show "\<exists>g t. s = g @ t \<and> length g = n \<and> list_all (atomMatches i a) g \<and> regexTest i r t"
    by blast
next
  assume "\<exists>g t. s = g @ t \<and> length g = n \<and> list_all (atomMatches i a) g \<and> regexTest i r t"
  then show "regexTest i ((a, Times n) # r) s"
    by (auto simp: regexTest_Times)
qed

lemma regexTest_single:
  "regexTest i ((a, Times 1) # r) s \<longleftrightarrow>
     (\<exists>c t. s = c # t \<and> atomMatches i a c \<and> regexTest i r t)"
  by (cases s) auto

lemma uuid_shape:
  "regexTest True uuidRegex s \<longleftrightarrow>
     (\<exists>g1 g2 x g3 y g4 g5.
        s = g1 @ 0x2D # g2 @ 0x2D # x # g3 @ 0x2D # y # g4 @ 0x2D # g5
        \<and> length g1 = 8 \<and> length g2 = 4 \<and> length g3 = 3 \<and> length g4 = 3 \<and> length g5 = 12
        \<and> list_all isHexDigit g1 \<and> list_all isHexDigit g2 \<and> list_all isHexDigit g3
        \<and> list_all isHexDigit g4 \<and> list_all isHexDigit g5
        \<and> x \<in> set (lit ''12345'') \<and> y \<in> set (lit ''89abAB''))"
  unfolding uuidRegex_def regexTest_single regexTest_group [of _ _ "numeral n" for n]
    regexTest.simps(1) hexClass_ignoreCase hyphen_ignoreCase version_ignoreCase variant_ignoreCase
proof
  assume "\<exists>g1 g2 x g3 y g4 g5.
        s = g1 @ 0x2D # g2 @ 0x2D # x # g3 @ 0x2D # y # g4 @ 0x2D # g5
        \<and> length g1 = 8 \<and> length g2 = 4 \<and> length g3 = 3 \<and> length g4 = 3 \<and> length g5 = 12
        \<and> list_all isHexDigit g1 \<and> list_all isHexDigit g2 \<and> list_all isHexDigit g3
        \<and> list_all isHexDigit g4 \<and> list_all isHexDigit g5
        \<and> x \<in> set (lit ''12345'') \<and> y \<in> set (lit ''89abAB'')"
  then obtain g1 g2 x g3 y g4 g5 where
    "s = g1 @ 0x2D # g2 @ 0x2D # x # g3 @ 0x2D # y # g4 @ 0x2D # g5"
    "length g1 = 8" "length g2 = 4" "length g3 = 3" "length g4 = 3" "length g5 = 12"
    "list_all isHexDigit g1" "list_all isHexDigit g2" "list_all isHexDigit g3"
    "list_all isHexDigit g4" "list_all isHexDigit g5"
    "x \<in> set (lit ''12345'')" "y \<in> set (lit ''89abAB'')"
    by blast
  then show "\<exists>g t. s = g @ t \<and> length g = 8 \<and> list_all isHexDigit g \<and>
    (\<exists>c ta. t = c # ta \<and> c = 45 \<and>
      (\<exists>g t. ta = g @ t \<and> length g = 4 \<and> list_all isHexDigit g \<and>
        (\<exists>c ta. t = c # ta \<and> c = 45 \<and>
          (\<exists>c t. ta = c # t \<and> c \<in> set (lit ''12345'') \<and>
            (\<exists>g ta. t = g @ ta \<and> length g = 3 \<and> list_all isHexDigit g \<and>
              (\<exists>c t. ta = c # t \<and> c = 45 \<and>
                (\<exists>c ta. t = c # ta \<and> c \<in> set (lit ''89abAB'') \<and>
                  (\<exists>g t. ta = g @ t \<and> length g = 3 \<and> list_all isHexDigit g \<and>
                    (\<exists>c ta. t = c # ta \<and> c = 45 \<and>
                      (\<exists>g t. ta = g @ t \<and> length g = 12 \<and> list_all isHexDigit g
                        \<and> t = []))))))))))"
    by (intro exI conjI) (rule refl | assumption | rule append_Nil2 [symmetric] | simp)+
next
  show "\<exists>g t. s = g @ t \<and> length g = 8 \<and> list_all isHexDigit g \<and>
    (\<exists>c ta. t = c # ta \<and> c = 45 \<and>
      (\<exists>g t. ta = g @ t \<and> length g = 4 \<and> list_all isHexDigit g \<and>
        (\<exists>c ta. t = c # ta \<and> c = 45 \<and>
          (\<exists>c t. ta = c # t \<and> c \<in> set (lit ''12345'') \<and>
            (\<exists>g ta. t = g @ ta \<and> length g = 3 \<and> list_all isHexDigit g \<and>
              (\<exists>c t. ta = c # t \<and> c = 45 \<and>
                (\<exists>c ta. t = c # ta \<and> c \<in> set (lit ''89abAB'') \<and>
                  (\<exists>g t. ta = g @ t \<and> length g = 3 \<and> list_all isHexDigit g \<and>
                    (\<exists>c ta. t = c # ta \<and> c = 45 \<and>
                      (\<exists>g t. ta = g @ t \<and> length g = 12 \<and> list_all isHexDigit g
                        \<and> t = []))))))))))
   \<Longrightarrow> \<exists>g1 g2 x g3 y g4 g5.
        s = g1 @ 0x2D # g2 @ 0x2D # x # g3 @ 0x2D # y # g4 @ 0x2D # g5
        \<and> length g1 = 8 \<and> length g2 = 4 \<and> length g3 = 3 \<and> length g4 = 3 \<and> length g5 = 12
        \<and> list_all isHexDigit g1 \<and> list_all isHexDigit g2 \<and> list_all isHexDigit g3
        \<and> list_all isHexDigit g4 \<and> list_all isHexDigit g5
        \<and> x \<in> set (lit ''12345'') \<and> y \<in> set (lit ''89abAB'')"
    by (elim exE conjE, intro exI conjI) (simp, assumption+)
qed

text \<open>The same with the groups of the layout, the first digit of a group being its head.\<close>

lemma uuid_groups:
  "regexTest True uuidRegex s \<longleftrightarrow>
     (\<exists>g1 g2 g3 g4 g5.
        s = g1 @ lit ''-'' @ g2 @ lit ''-'' @ g3 @ lit ''-'' @ g4 @ lit ''-'' @ g5
        \<and> length g1 = 8 \<and> length g2 = 4 \<and> length g3 = 4 \<and> length g4 = 4 \<and> length g5 = 12
        \<and> list_all isHexDigit (g1 @ g2 @ g3 @ g4 @ g5)
        \<and> hd g3 \<in> set (lit ''12345'') \<and> hd g4 \<in> set (lit ''89abAB''))"
  (is "?l \<longleftrightarrow> ?r")
proof
  assume ?l
  then obtain g1 g2 x g3 y g4 g5 where
    "s = g1 @ 0x2D # g2 @ 0x2D # x # g3 @ 0x2D # y # g4 @ 0x2D # g5"
    "length g1 = 8" "length g2 = 4" "length g3 = 3" "length g4 = 3" "length g5 = 12"
    "list_all isHexDigit g1" "list_all isHexDigit g2" "list_all isHexDigit g3"
    "list_all isHexDigit g4" "list_all isHexDigit g5"
    "x \<in> set (lit ''12345'')" "y \<in> set (lit ''89abAB'')"
    unfolding uuid_shape by blast
  then have
    "s = g1 @ lit ''-'' @ g2 @ lit ''-'' @ (x # g3) @ lit ''-'' @ (y # g4) @ lit ''-'' @ g5
     \<and> length g1 = 8 \<and> length g2 = 4 \<and> length (x # g3) = 4 \<and> length (y # g4) = 4
     \<and> length g5 = 12 \<and> list_all isHexDigit (g1 @ g2 @ (x # g3) @ (y # g4) @ g5)
     \<and> hd (x # g3) \<in> set (lit ''12345'') \<and> hd (y # g4) \<in> set (lit ''89abAB'')"
    by (simp add: version_is_hex variant_is_hex) (simp add: lit_def)
  then show ?r by blast
next
  assume ?r
  then obtain g1 g2 g3 g4 g5 where g:
    "s = g1 @ lit ''-'' @ g2 @ lit ''-'' @ g3 @ lit ''-'' @ g4 @ lit ''-'' @ g5"
    "length g1 = 8" "length g2 = 4" "length g3 = 4" "length g4 = 4" "length g5 = 12"
    "list_all isHexDigit (g1 @ g2 @ g3 @ g4 @ g5)"
    "hd g3 \<in> set (lit ''12345'')" "hd g4 \<in> set (lit ''89abAB'')"
    by blast
  from g(4) obtain x h3 where g3: "g3 = x # h3" "length h3 = 3"
    by (cases g3) auto
  from g(5) obtain y h4 where g4: "g4 = y # h4" "length h4 = 3"
    by (cases g4) auto
  have "s = g1 @ 0x2D # g2 @ 0x2D # x # h3 @ 0x2D # y # h4 @ 0x2D # g5
        \<and> length g1 = 8 \<and> length g2 = 4 \<and> length h3 = 3 \<and> length h4 = 3 \<and> length g5 = 12
        \<and> list_all isHexDigit g1 \<and> list_all isHexDigit g2 \<and> list_all isHexDigit h3
        \<and> list_all isHexDigit h4 \<and> list_all isHexDigit g5
        \<and> x \<in> set (lit ''12345'') \<and> y \<in> set (lit ''89abAB'')"
    using g g3 g4 by (simp add: lit_def)
  then show ?l unfolding uuid_shape by blast
qed

lemma isUuid_Str: "isUuid (Str s) = Inr (regexTest True uuidRegex s)"
  by (simp add: isUuid_def typeof_string)

lemma isUuid_other: "(\<forall>s. v \<noteq> Str s) \<Longrightarrow> isUuid v = Inr False"
  by (simp add: isUuid_def typeof_string)

lemmas regex_eval = uuidRegex_def regexTest_Times hexClass_ignoreCase hyphen_ignoreCase
  version_ignoreCase variant_ignoreCase isHexDigit_def isDecimalDigit_def lit_def

lemma uuid_valid: "regexTest True uuidRegex (lit ''123e4567-e89b-12d3-a456-426614174000'')"
  by (simp add: regex_eval)

lemma uuid_bad_version:
  "\<not> regexTest True uuidRegex (lit ''123e4567-e89b-72d3-a456-426614174000'')"
  by (simp add: regex_eval)

text \<open>
  Claim C8. For every value \<open>v\<close>, \<open>isUuid(v)\<close> returns true iff \<open>v\<close> is a string in the
  8-4-4-4-12 layout: five groups of hexadecimal digits of either case, of these lengths,
  joined by hyphens, where the first digit of the third group is one of \<open>1\<close> to \<open>5\<close>
  and the first digit of the fourth group is one of \<open>8\<close>, \<open>9\<close>, \<open>a\<close>, \<open>b\<close> in either
  case. In particular \<open>isUuid("123e4567-e89b-12d3-a456-426614174000")\<close> is true and
  \<open>isUuid("123e4567-e89b-72d3-a456-426614174000")\<close> is false.
\<close>

theorem isUuid_canonical_layout:
  "isUuid v =
     Inr (\<exists>g1 g2 g3 g4 g5.
        v = Str (g1 @ lit ''-'' @ g2 @ lit ''-'' @ g3 @ lit ''-'' @ g4 @ lit ''-'' @ g5)
        \<and> length g1 = 8 \<and> length g2 = 4 \<and> length g3 = 4 \<and> length g4 = 4 \<and> length g5 = 12
        \<and> list_all isHexDigit (g1 @ g2 @ g3 @ g4 @ g5)
        \<and> hd g3 \<in> set (lit ''12345'') \<and> hd g4 \<in> set (lit ''89abAB''))
   \<and> isUuid (Str (lit ''123e4567-e89b-12d3-a456-426614174000'')) = Inr True
   \<and> isUuid (Str (lit ''123e4567-e89b-72d3-a456-426614174000'')) = Inr False"
proof (intro conjI)
  show "isUuid v =
     Inr (\<exists>g1 g2 g3 g4 g5.
        v = Str (g1 @ lit ''-'' @ g2 @ lit ''-'' @ g3 @ lit ''-'' @ g4 @ lit ''-'' @ g5)
        \<and> length g1 = 8 \<and> length g2 = 4 \<and> length g3 = 4 \<and> length g4 = 4 \<and> length g5 = 12
        \<and> list_all isHexDigit (g1 @ g2 @ g3 @ g4 @ g5)
        \<and> hd g3 \<in> set (lit ''12345'') \<and> hd g4 \<in> set (lit ''89abAB''))"
  proof (cases "\<exists>s. v = Str s")
    case True
    then obtain s where v: "v = Str s" by blast
    show ?thesis unfolding v isUuid_Str uuid_groups by simp
  next
    case False
    then show ?thesis by (simp add: isUuid_other)
  qed
  show "isUuid (Str (lit ''123e4567-e89b-12d3-a456-426614174000'')) = Inr True"
    unfolding isUuid_Str using uuid_valid by simp
  show "isUuid (Str (lit ''123e4567-e89b-72d3-a456-426614174000'')) = Inr False"
    unfolding isUuid_Str using uuid_bad_version by simp
qed

section \<open>Plain objects\<close>

lemma instanceof_primitive: "(\<forall>obj. v \<noteq> Obj obj) \<Longrightarrow> \<not> instanceof v C"
  by (cases v) (simp_all add: instanceof_def)

lemma tag_is_Object:
  "lit ''[object '' @ x @ lit '']'' = lit ''[object Object]'' \<longleftrightarrow> x = lit ''Object''"
  by (simp add: lit_def)

lemma isObject_Obj:
  "isObject (Obj obj) =
     (case Get obj PToStringTag of
        Inl e \<Rightarrow> Inl e
      | Inr t \<Rightarrow> Inr ((case t of Str tag \<Rightarrow> tag | _ \<Rightarrow> builtinTag (slots obj)) = lit ''Object''))"
  by (simp add: isObject_def Object_prototype_toString_def ToObject_def tag_is_Object
      split: sum.splits jsval.splits)

lemma builtinName_not_Object: "builtinName b = lit ''Object'' \<longleftrightarrow> b = BObject"
  by (cases b) (simp_all add: builtinName_def lit_def)

lemma inherited_toStringTag:
  "lookupChain sl (builtinChain b) PToStringTag =
     (if b = BMap \<or> b = BSet \<or> b = BPromise \<or> b = BSymbol \<or> b = BBigInt \<or> b = BAsyncFunction
      then Inr (Str (builtinName b)) else Inr Undefined)"
  by (cases b) (simp_all add: intrinsicProperty_def)

lemma builtinTag_Object:
  "builtinTag sl = lit ''Object'' \<longleftrightarrow>
     (case sl of Ordinary \<Rightarrow> True | SymbolData _ \<Rightarrow> True | BigIntData _ \<Rightarrow> True | MapData _ \<Rightarrow> True
      | SetData _ \<Rightarrow> True | PromiseState \<Rightarrow> True | _ \<Rightarrow> False)"
  by (cases sl) (simp_all add: builtinTag_def lit_def)

lemma isObject_untagged:
  "map_of ps PToStringTag = None \<Longrightarrow>
   isObject (Obj (Object sl ps b)) =
     Inr (builtinTag sl = lit ''Object'' \<and>
          b \<notin> {Some BMap, Some BSet, Some BPromise, Some BSymbol, Some BBigInt, Some BAsyncFunction})"
  by (cases b) (auto simp add: isObject_Obj Get_def inherited_toStringTag builtinName_not_Object)

lemma isObject_primitive: "(\<forall>obj. v \<noteq> Obj obj) \<Longrightarrow> isObject v = Inr False"
  by (cases v)
    (simp_all add: isObject_def Object_prototype_toString_def ToObject_def Get_def
      intrinsicProperty_def builtinTag_def tag_is_Object builtinName_not_Object, simp_all add: lit_def)


lemma instanceof_epochDate: "instanceof epochDate BDate"
  by (simp add: epochDate_def instanceof_def)





section \<open>Emptiness by kind of value\<close>

lemma looselyNull_Obj: "\<not> looselyNull (Obj obj)"
  by (simp add: looselyNull_def)

lemma typeof_Obj_not_string: "typeof (Obj obj) \<noteq> lit ''string''"
  by (simp add: typeof_string)

lemma isEmpty_array:
  "slots obj = ArrayExotic es \<Longrightarrow> isEmpty (Obj obj) = Inr (es = [])"
  by (simp add: isEmpty_def looselyNull_Obj typeof_Obj_not_string Array_isArray_def elements_def)

lemma index_isEmpty_array:
  "slots obj = ArrayExotic es \<Longrightarrow> index_isEmpty (Obj obj) = Inr (es = [])"
  by (simp add: index_isEmpty_def tryCatch_def looselyNull_Obj typeof_Obj_not_string
      Array_isArray_def elements_def)

lemma Object_keys_Obj:
  "Object_keys (Obj obj) =
     Inr (indexKeys (slots obj) @
          [s. PStr s \<leftarrow> filter (ownEnumerable obj) (remdups (map fst (props obj)))])"
  by (simp add: Object_keys_def ToObject_def)

lemma instanceof_BObject_base:
  "\<not> instanceof (Obj (Object sl ps (Some BObject))) BMap"
  "\<not> instanceof (Obj (Object sl ps (Some BObject))) BSet"
  "\<not> instanceof (Obj (Object sl ps (Some BObject))) BDate"
  "\<not> instanceof (Obj (Object sl ps (Some BObject))) BPromise"
  by (simp_all add: instanceof_def)

lemma isEmpty_emptyObject: "isEmpty emptyObject = Inr True"
  by (simp add: emptyObject_def isEmpty_def looselyNull_Obj typeof_Obj_not_string
      Array_isArray_def instanceof_BObject_base isObject_untagged builtinTag_Object
      Object_keys_Obj indexKeys_def)

lemma isEmpty_objectWithA: "isEmpty objectWithA = Inr False"
  by (simp add: objectWithA_def isEmpty_def looselyNull_Obj typeof_Obj_not_string
      Array_isArray_def instanceof_BObject_base isObject_untagged builtinTag_Object
      Object_keys_Obj indexKeys_def ownEnumerable_def)

lemma index_isEmpty_emptyObject: "index_isEmpty emptyObject = Inr True"
  by (simp add: emptyObject_def index_isEmpty_def tryCatch_def looselyNull_Obj
      typeof_Obj_not_string typeof_object Array_isArray_def instanceof_BObject_base
      Object_keys_Obj indexKeys_def)

lemma index_isEmpty_objectWithA: "index_isEmpty objectWithA = Inr False"
  by (simp add: objectWithA_def index_isEmpty_def tryCatch_def looselyNull_Obj
      typeof_Obj_not_string typeof_object Array_isArray_def instanceof_BObject_base
      Object_keys_Obj indexKeys_def ownEnumerable_def)

lemma isEmpty_otherwise:
  assumes "isNullish v = Inr False" "isString v = Inr False" "isArray v = Inr False"
    "isMap v = Inr False" "isSet v = Inr False" "isObject v = Inr False"
  shows "isEmpty v = Inr False"
  using assms
  by (simp add: isEmpty_def isNullish_def isString_def isArray_def isMap_def isSet_def)

lemma index_isEmpty_otherwise:
  assumes "\<not> looselyNull v" "typeof v \<noteq> lit ''string''" "\<not> Array_isArray v"
    "\<not> instanceof v BMap" "\<not> instanceof v BSet" "typeof v \<noteq> lit ''object''"
  shows "index_isEmpty v = Inr False"
  using assms by (simp add: index_isEmpty_def tryCatch_def)

lemma index_isEmpty_epochDate: "index_isEmpty epochDate = Inr True"
  by (simp add: epochDate_def index_isEmpty_def tryCatch_def looselyNull_Obj
      typeof_Obj_not_string typeof_object Array_isArray_def instanceof_def
      Object_keys_Obj indexKeys_def)

lemma trim_whitespace:
  assumes "list_all isWhiteSpace s"
  shows "trim s = []"
proof -
  from assms have blank: "dropWhile isWhiteSpace s = []"
    by (induction s) auto
  show ?thesis unfolding trim_def blank by simp
qed

lemma isEmpty_primitive:
  "isEmpty (Num n) = Inr False" "isEmpty (Bool b) = Inr False"
  "isEmpty (Sym d) = Inr False" "isEmpty (BigInt i) = Inr False"
  by (rule isEmpty_otherwise;
      simp add: isNullish_def isString_def isArray_def isMap_def isSet_def looselyNull_def
        typeof_string Array_isArray_def instanceof_def isObject_primitive)+

lemma isEmpty_plainFunction: "isEmpty plainFunction = Inr False"
  by (rule isEmpty_otherwise;
      simp add: plainFunction_def isNullish_def isString_def isArray_def isMap_def isSet_def
        looselyNull_def typeof_string Array_isArray_def instanceof_def isObject_untagged
        builtinTag_Object)

lemma isEmpty_epochDate: "isEmpty epochDate = Inr False"
  by (rule isEmpty_otherwise;
      simp add: epochDate_def isNullish_def isString_def isArray_def isMap_def isSet_def
        looselyNull_def typeof_string Array_isArray_def instanceof_def isObject_untagged
        builtinTag_Object)

lemma isEmpty_sampleRegExp: "isEmpty sampleRegExp = Inr False"
  by (rule isEmpty_otherwise;
      simp add: sampleRegExp_def isNullish_def isString_def isArray_def isMap_def isSet_def
        looselyNull_def typeof_string Array_isArray_def instanceof_def isObject_untagged
        builtinTag_Object)

lemma index_isEmpty_primitive:
  "index_isEmpty (Num n) = Inr False" "index_isEmpty (Bool b) = Inr False"
  "index_isEmpty (Sym d) = Inr False" "index_isEmpty (BigInt i) = Inr False"
  by (rule index_isEmpty_otherwise;
      simp add: looselyNull_def typeof_string typeof_object Array_isArray_def instanceof_def)+

lemma index_isEmpty_plainFunction: "index_isEmpty plainFunction = Inr False"
  by (rule index_isEmpty_otherwise;
      simp add: plainFunction_def looselyNull_def typeof_string typeof_object Array_isArray_def
        instanceof_def)

lemma isEmpty_elements:
  "Array_isArray v \<Longrightarrow> isEmpty v = Inr (elements v = [])"
  "Array_isArray v \<Longrightarrow> index_isEmpty v = Inr (elements v = [])"
  by (cases v; simp add: Array_isArray_def elements_def isEmpty_array index_isEmpty_array
      split: slots.splits)+

lemma isEmpty_keys:
  assumes "\<not> Array_isArray v" "\<not> instanceof v BMap" "\<not> instanceof v BSet"
    "isObject v = Inr True"
  shows "isEmpty v = Inr (Object_keys v = Inr [])"
proof -
  from assms(4) obtain obj where v: "v = Obj obj"
    using isObject_primitive [of v] by auto
  show ?thesis
    using assms unfolding v
    by (simp add: isEmpty_def looselyNull_Obj typeof_Obj_not_string Object_keys_Obj)
qed

lemma index_isEmpty_keys:
  assumes "typeof v = lit ''object''" "v \<noteq> Null" "\<not> Array_isArray v"
    "\<not> instanceof v BMap" "\<not> instanceof v BSet"
  shows "index_isEmpty v = Inr (Object_keys v = Inr [])"
proof -
  from assms(1,2) obtain obj where v: "v = Obj obj"
    by (auto simp: typeof_object)
  have distinct: "lit ''object'' \<noteq> lit ''string''"
    by (simp add: lit_def)
  show ?thesis
    using assms unfolding v
    by (simp add: index_isEmpty_def tryCatch_def looselyNull_Obj distinct Object_keys_Obj)
qed

lemma Object_keys_hiddenPropertyObject: "Object_keys hiddenPropertyObject = Inr []"
  by (simp add: hiddenPropertyObject_def Object_keys_Obj indexKeys_def ownEnumerable_def)

text \<open>
  Claim C2, as stated, fails on the version of \<open>src/index.ts\<close>: it compares the
  untrimmed length of a string with zero, so a string of three spaces is not empty; and
  it counts the own enumerable keys of every object that is not an array, a Map or a
  Set, so a Date, which has none, is empty.
\<close>

theorem index_isEmpty_whitespace_and_date:
  "list_all isWhiteSpace (lit ''   '') \<and> index_isEmpty (Str (lit ''   '')) = Inr False
   \<and> instanceof epochDate BDate \<and> index_isEmpty epochDate = Inr True"
proof (intro conjI)
  show "list_all isWhiteSpace (lit ''   '')"
    by (simp add: lit_def isWhiteSpace_def)
  show "index_isEmpty (Str (lit ''   '')) = Inr False"
    by (simp add: index_isEmpty_Str) (simp add: lit_def)
  show "instanceof epochDate BDate" by (rule instanceof_epochDate)
  show "index_isEmpty epochDate = Inr True" by (rule index_isEmpty_epochDate)
qed

text \<open>
  Claim C2, amended. \<open>isEmpty\<close> of the full library is true for \<open>null\<close>,
  \<open>undefined\<close>, \<open>""\<close>, every string of white space, \<open>[]\<close> and \<open>{}\<close>, false for
  \<open>[1]\<close> and \<open>{a: 1}\<close>, and false for every value for which \<open>isNullish\<close>,
  \<open>isString\<close>, \<open>isArray\<close>, \<open>isMap\<close>, \<open>isSet\<close> and \<open>isObject\<close> all return false:
  numbers, booleans, symbols, bigints, and ordinary functions, dates and regular
  expressions among them. \<open>isEmpty\<close> of \<open>src/index.ts\<close> agrees on \<open>null\<close>,
  \<open>undefined\<close>, \<open>""\<close>, \<open>[]\<close>, \<open>{}\<close>, \<open>[1]\<close> and \<open>{a: 1}\<close>, but a string is
  empty there iff its untrimmed length is zero; it returns false for every value that is
  neither nullish, a string, an array, an instance of Map or Set, nor of type \<open>object\<close>
  (numbers, booleans, symbols, bigints, functions); and it returns
  \<open>Object.keys(value).length === 0\<close>, false if \<open>Object.keys\<close> throws, for every
  non-null value of type \<open>object\<close> that is not an array or an instance of Map or
  Set, so that it is true of a Date without own enumerable keys. In both versions an
  array is empty iff its length is zero.

  The statement also records that the full library returns
  \<open>Object.keys(value).length === 0\<close> for a value that \<open>isObject\<close> accepts and that
  is not an array or an instance of Map or Set.
\<close>

theorem isEmpty_dispatch:
  "isEmpty Null = Inr True \<and> isEmpty Undefined = Inr True \<and> isEmpty (Str []) = Inr True
   \<and> (list_all isWhiteSpace s \<longrightarrow> isEmpty (Str s) = Inr True)
   \<and> isEmpty emptyArray = Inr True \<and> isEmpty emptyObject = Inr True
   \<and> isEmpty arrayWithOne = Inr False \<and> isEmpty objectWithA = Inr False
   \<and> (isNullish v = Inr False \<and> isString v = Inr False \<and> isArray v = Inr False
        \<and> isMap v = Inr False \<and> isSet v = Inr False \<and> isObject v = Inr False
      \<longrightarrow> isEmpty v = Inr False)
   \<and> isEmpty (Num n) = Inr False \<and> isEmpty (Bool b) = Inr False
   \<and> isEmpty (Sym d) = Inr False \<and> isEmpty (BigInt i) = Inr False
   \<and> isEmpty plainFunction = Inr False \<and> isEmpty epochDate = Inr False
   \<and> isEmpty sampleRegExp = Inr False
   \<and> index_isEmpty Null = Inr True \<and> index_isEmpty Undefined = Inr True
   \<and> index_isEmpty (Str s) = Inr (s = [])
   \<and> index_isEmpty emptyArray = Inr True \<and> index_isEmpty emptyObject = Inr True
   \<and> index_isEmpty arrayWithOne = Inr False \<and> index_isEmpty objectWithA = Inr False
   \<and> (\<not> looselyNull v \<and> typeof v \<noteq> lit ''string'' \<and> \<not> Array_isArray v
        \<and> \<not> instanceof v BMap \<and> \<not> instanceof v BSet \<and> typeof v \<noteq> lit ''object''
      \<longrightarrow> index_isEmpty v = Inr False)
   \<and> index_isEmpty (Num n) = Inr False \<and> index_isEmpty (Bool b) = Inr False
   \<and> index_isEmpty (Sym d) = Inr False \<and> index_isEmpty (BigInt i) = Inr False
   \<and> index_isEmpty plainFunction = Inr False
   \<and> (typeof v = lit ''object'' \<and> v \<noteq> Null \<and> \<not> Array_isArray v
        \<and> \<not> instanceof v BMap \<and> \<not> instanceof v BSet
      \<longrightarrow> index_isEmpty v = Inr (Object_keys v = Inr []))
   \<and> index_isEmpty epochDate = Inr True
   \<and> (Array_isArray v \<longrightarrow>
        isEmpty v = Inr (elements v = []) \<and> index_isEmpty v = Inr (elements v = []))
   \<and> (\<not> Array_isArray v \<and> \<not> instanceof v BMap \<and> \<not> instanceof v BSet
        \<and> isObject v = Inr True
      \<longrightarrow> isEmpty v = Inr (Object_keys v = Inr []))"
proof (intro conjI impI)
  show "isEmpty Null = Inr True" "isEmpty Undefined = Inr True"
    by (simp_all add: isEmpty_def looselyNull_def)
  show "isEmpty (Str []) = Inr True"
    by (simp add: isEmpty_Str trim_def)
  show "isEmpty (Str s) = Inr True" if "list_all isWhiteSpace s"
    using that by (simp add: isEmpty_Str trim_whitespace)
  show "isEmpty emptyArray = Inr True" "isEmpty arrayWithOne = Inr False"
    by (simp_all add: emptyArray_def arrayWithOne_def isEmpty_array)
  show "isEmpty emptyObject = Inr True" by (rule isEmpty_emptyObject)
  show "isEmpty objectWithA = Inr False" by (rule isEmpty_objectWithA)
  show "isEmpty v = Inr False"
    if "isNullish v = Inr False \<and> isString v = Inr False \<and> isArray v = Inr False
        \<and> isMap v = Inr False \<and> isSet v = Inr False \<and> isObject v = Inr False"
    using that by (blast intro: isEmpty_otherwise)
  show "isEmpty (Num n) = Inr False" "isEmpty (Bool b) = Inr False"
    "isEmpty (Sym d) = Inr False" "isEmpty (BigInt i) = Inr False"
    by (rule isEmpty_primitive)+
  show "isEmpty plainFunction = Inr False" by (rule isEmpty_plainFunction)
  show "isEmpty epochDate = Inr False" by (rule isEmpty_epochDate)
  show "isEmpty sampleRegExp = Inr False" by (rule isEmpty_sampleRegExp)
  show "index_isEmpty Null = Inr True" "index_isEmpty Undefined = Inr True"
    by (simp_all add: index_isEmpty_def tryCatch_def looselyNull_def)
  show "index_isEmpty (Str s) = Inr (s = [])" by (rule index_isEmpty_Str)
  show "index_isEmpty emptyArray = Inr True" "index_isEmpty arrayWithOne = Inr False"
    by (simp_all add: emptyArray_def arrayWithOne_def index_isEmpty_array)
  show "index_isEmpty emptyObject = Inr True" by (rule index_isEmpty_emptyObject)
  show "index_isEmpty objectWithA = Inr False" by (rule index_isEmpty_objectWithA)
  show "index_isEmpty v = Inr False"
    if "\<not> looselyNull v \<and> typeof v \<noteq> lit ''string'' \<and> \<not> Array_isArray v
        \<and> \<not> instanceof v BMap \<and> \<not> instanceof v BSet \<and> typeof v \<noteq> lit ''object''"
    using that by (blast intro: index_isEmpty_otherwise)
  show "index_isEmpty (Num n) = Inr False" "index_isEmpty (Bool b) = Inr False"
    "index_isEmpty (Sym d) = Inr False" "index_isEmpty (BigInt i) = Inr False"
    by (rule index_isEmpty_primitive)+
  show "index_isEmpty plainFunction = Inr False" by (rule index_isEmpty_plainFunction)
  show "index_isEmpty v = Inr (Object_keys v = Inr [])"
    if "typeof v = lit ''object'' \<and> v \<noteq> Null \<and> \<not> Array_isArray v
        \<and> \<not> instanceof v BMap \<and> \<not> instanceof v BSet"
    using that by (blast intro: index_isEmpty_keys)
  show "index_isEmpty epochDate = Inr True" by (rule index_isEmpty_epochDate)
  show "isEmpty v = Inr (elements v = [])" "index_isEmpty v = Inr (elements v = [])"
    if "Array_isArray v"
    using that by (rule isEmpty_elements)+
  show "isEmpty v = Inr (Object_keys v = Inr [])"
    if "\<not> Array_isArray v \<and> \<not> instanceof v BMap \<and> \<not> instanceof v BSet
        \<and> isObject v = Inr True"
    using that by (blast intro: isEmpty_keys)
qed

lemma regExp_not_empty_facts:
  "isNullish (Obj (Object RegExpMatcher [] (Some BRegExp))) = Inr False"
  "isString (Obj (Object RegExpMatcher [] (Some BRegExp))) = Inr False"
  "isArray (Obj (Object RegExpMatcher [] (Some BRegExp))) = Inr False"
  "isMap (Obj (Object RegExpMatcher [] (Some BRegExp))) = Inr False"
  "isSet (Obj (Object RegExpMatcher [] (Some BRegExp))) = Inr False"
  "isObject (Obj (Object RegExpMatcher [] (Some BRegExp))) = Inr False"
  by (simp_all add: isNullish_def isString_def isArray_def isMap_def isSet_def looselyNull_def
      typeof_string Array_isArray_def instanceof_def isObject_untagged builtinTag_Object)

lemma hiddenPropertyObject_facts:
  "typeof hiddenPropertyObject = lit ''object''" "hiddenPropertyObject \<noteq> Null"
  "\<not> Array_isArray hiddenPropertyObject" "\<not> instanceof hiddenPropertyObject BMap"
  "\<not> instanceof hiddenPropertyObject BSet" "isObject hiddenPropertyObject = Inr True"
  by (simp_all add: hiddenPropertyObject_def typeof_object Array_isArray_def instanceof_def
      isObject_untagged builtinTag_Object)

text \<open>
  The amended claim at concrete values: a string of one space, a RegExp, a boolean, an
  empty array that carries a \<open>@@toStringTag\<close>, and an object whose only property is
  not enumerable.
\<close>

theorem isEmpty_dispatch_witness:
  "list_all isWhiteSpace (lit '' '')
   \<and> isEmpty (Str (lit '' '')) = Inr True
   \<and> isEmpty (Obj (Object RegExpMatcher [] (Some BRegExp))) = Inr False
   \<and> index_isEmpty (Str (lit '' '')) = Inr False
   \<and> index_isEmpty (Bool True) = Inr False
   \<and> Array_isArray taggedArray
   \<and> isEmpty taggedArray = Inr True \<and> index_isEmpty taggedArray = Inr True
   \<and> typeof hiddenPropertyObject = lit ''object''
   \<and> index_isEmpty hiddenPropertyObject = Inr True
   \<and> isEmpty hiddenPropertyObject = Inr True"
  using isEmpty_dispatch [where s = "lit '' ''" and v = "Obj (Object RegExpMatcher [] (Some BRegExp))"]
    isEmpty_dispatch [where v = "Bool True" and b = True]
    isEmpty_dispatch [where v = taggedArray]
    isEmpty_dispatch [where v = hiddenPropertyObject]
    regExp_not_empty_facts hiddenPropertyObject_facts Object_keys_hiddenPropertyObject
  by (simp add: lit_def isWhiteSpace_def taggedArray_def Array_isArray_def elements_def)

section \<open>Promises and thenables\<close>

lemma GetV_Obj: "GetV (Obj obj) key = Get obj key"
  by (simp add: GetV_def ToObject_def)

lemma isPromise_cases:
  "isPromise v = Inr True \<longleftrightarrow>
     instanceof v BPromise
     \<or> (typeof v = lit ''object'' \<and> v \<noteq> Null
        \<and> (\<exists>t. GetV v (PStr (lit ''then'')) = Inr t \<and> typeof t = lit ''function''))"
  by (cases "GetV v (PStr (lit ''then''))") (auto simp: isPromise_def)

lemma isPromise_function:
  "typeof v = lit ''function'' \<Longrightarrow> \<not> instanceof v BPromise \<Longrightarrow> isPromise v = Inr False"
  by (simp add: isPromise_def lit_def)

lemma thenableFunction_facts:
  "typeof thenableFunction = lit ''function''"
  "GetV thenableFunction (PStr (lit ''then'')) = Inr plainFunction"
  "typeof plainFunction = lit ''function''"
  "\<not> instanceof thenableFunction BPromise"
  "\<not> instanceof plainFunction BPromise"
  by (simp_all add: thenableFunction_def plainFunction_def typeof_function IsCallable_def
      GetV_Obj Get_def instanceof_def)

lemma thenableObject_facts:
  "typeof thenableObject = lit ''object''"
  "thenableObject \<noteq> Null"
  "GetV thenableObject (PStr (lit ''then'')) = Inr plainFunction"
  by (simp_all add: thenableObject_def typeof_object GetV_Obj Get_def)

text \<open>
  Claim C5, as stated, fails: a function whose \<open>then\<close> member is callable is not an
  instance of Promise and its type is \<open>function\<close>, not \<open>object\<close>, so \<open>isPromise\<close>
  returns false.
\<close>

theorem isPromise_rejects_thenable_function:
  "typeof thenableFunction = lit ''function''
   \<and> GetV thenableFunction (PStr (lit ''then'')) = Inr plainFunction
   \<and> typeof plainFunction = lit ''function''
   \<and> isPromise thenableFunction = Inr False"
  by (simp add: thenableFunction_facts isPromise_function)

text \<open>
  Claim C5, amended. \<open>isPromise(v)\<close> returns true iff \<open>v\<close> is an instance of Promise,
  or \<open>v\<close> is a non-null value of type \<open>object\<close> whose \<open>then\<close> member is callable. For
  a function that is not an instance of Promise it returns false, whatever its \<open>then\<close>
  member is.
\<close>

theorem isPromise_instance_or_thenable_object:
  "(isPromise v = Inr True \<longleftrightarrow>
      instanceof v BPromise
      \<or> (typeof v = lit ''object'' \<and> v \<noteq> Null
         \<and> (\<exists>t. GetV v (PStr (lit ''then'')) = Inr t \<and> typeof t = lit ''function'')))
   \<and> (typeof v = lit ''function'' \<and> \<not> instanceof v BPromise \<longrightarrow> isPromise v = Inr False)"
  using isPromise_cases [of v] isPromise_function [of v] by blast

text \<open>
  The amended claim at a function without any \<open>then\<close> member and at an object with a
  callable one.
\<close>

theorem isPromise_instance_or_thenable_object_witness:
  "typeof plainFunction = lit ''function'' \<and> \<not> instanceof plainFunction BPromise
   \<and> isPromise plainFunction = Inr False
   \<and> isPromise thenableObject = Inr True"
  using isPromise_instance_or_thenable_object [of plainFunction]
    isPromise_instance_or_thenable_object [of thenableObject]
  by (simp add: thenableFunction_facts thenableObject_facts)

section \<open>What can be raised\<close>

lemma raises_simps: "raises (Inl e) \<longleftrightarrow> True" "raises (Inr x) \<longleftrightarrow> False"
  by (simp_all add: raises_def)

lemma tryCatch_total: "\<not> raises (tryCatch body d)"
  by (simp add: tryCatch_def raises_simps)

lemma basic_checkers_total:
  "\<not> raises (isNumeric v)" "\<not> raises (isString v)" "\<not> raises (isNonEmptyString v)"
  "\<not> raises (isBoolean v)" "\<not> raises (isNumber v)" "\<not> raises (isInteger v)"
  "\<not> raises (isPositiveNumber v)" "\<not> raises (isBigInt v)" "\<not> raises (isSymbol v)"
  by (simp_all add: isNumeric_def isString_def isNonEmptyString_def isBoolean_def isNumber_def
      isInteger_def isPositiveNumber_def isBigInt_def isSymbol_def raises_simps Let_def)

lemma structural_checkers_total:
  "\<not> raises (isArray v)" "\<not> raises (isNonEmptyArray v)" "\<not> raises (isRegExp v)"
  "\<not> raises (isMap v)" "\<not> raises (isSet v)" "\<not> raises (isFunction v)"
  "\<not> raises (isNull v)" "\<not> raises (isUndefined v)" "\<not> raises (isNullish v)"
  "\<not> raises (isDefined v)"
  by (simp_all add: isArray_def isNonEmptyArray_def isRegExp_def isMap_def isSet_def
      isFunction_def isNull_def isUndefined_def isNullish_def isDefined_def raises_simps)

lemma format_checkers_total:
  "\<not> raises (isUrl h v)" "\<not> raises (isEmail v)" "\<not> raises (isUuid v)"
  "\<not> raises (isPrimitive v)" "\<not> raises (isJsonSerializable h v)" "\<not> raises (getType v)"
  by (simp_all add: isUrl_def isEmail_def isUuid_def isPrimitive_def isJsonSerializable_def
      getType_def raises_simps Let_def split: sum.splits)

lemma index_checkers_total:
  "\<not> raises (index_isNumeric v)" "\<not> raises (index_isString v)"
  "\<not> raises (index_isBoolean v)" "\<not> raises (index_isArray v)"
  "\<not> raises (index_isObject v)" "\<not> raises (index_isFunction v)"
  "\<not> raises (index_isNull v)" "\<not> raises (index_isUndefined v)"
  "\<not> raises (index_isEmpty v)"
  by (simp_all add: index_isNumeric_def index_isString_def index_isBoolean_def
      index_isArray_def index_isObject_def index_isFunction_def index_isNull_def
      index_isUndefined_def index_isEmpty_def tryCatch_total raises_simps)

lemma every_no_raise:
  "(\<forall>x \<in> set xs. \<not> raises (p x)) \<Longrightarrow> \<not> raises (every p xs)"
proof (induction xs)
  case Nil
  then show ?case by (simp add: raises_simps)
next
  case (Cons x xs)
  then show ?case by (cases "p x") (simp_all add: raises_simps)
qed

lemma some_no_raise:
  "(\<forall>x \<in> set xs. \<not> raises (p x)) \<Longrightarrow> \<not> raises (some p xs)"
proof (induction xs)
  case Nil
  then show ?case by (simp add: raises_simps)
next
  case (Cons x xs)
  then show ?case by (cases "p x") (simp_all add: raises_simps)
qed

lemma isOneOf_no_raise:
  "(\<forall>p \<in> set predicates. \<not> raises (p v)) \<Longrightarrow> \<not> raises (isOneOf predicates v)"
  by (simp add: isOneOf_def some_no_raise)

lemma size_key:
  "lit ''constructor'' \<noteq> lit ''size''" "lit ''then'' \<noteq> lit ''size''"
  "lit ''name'' \<noteq> lit ''size''" "lit ''size'' \<noteq> lit ''constructor''"
  "lit ''size'' \<noteq> lit ''then''" "lit ''size'' \<noteq> lit ''name''"
  by (simp_all add: lit_def)

lemma intrinsicProperty_no_raise:
  "key \<noteq> PStr (lit ''size'') \<Longrightarrow> intrinsicProperty sl b key \<noteq> Some (Inl e)"
  by (simp add: intrinsicProperty_def)

lemma lookupChain_no_raise:
  "key \<noteq> PStr (lit ''size'') \<Longrightarrow> \<not> raises (lookupChain sl bs key)"
proof (induction bs)
  case Nil
  then show ?case by (simp add: raises_simps)
next
  case (Cons b bs)
  then show ?case
    using intrinsicProperty_no_raise [of key sl b]
    by (cases "intrinsicProperty sl b key"; cases "the (intrinsicProperty sl b key)")
      (auto simp: raises_simps)
qed

lemma own_property_no_raise:
  assumes "\<not> list_ex (\<lambda>(k, p). getterThrows p) ps" "map_of ps key = Some p"
  shows "\<exists>x. (case p of Data _ v \<Rightarrow> Inr v | Accessor _ r \<Rightarrow> r) = Inr x"
proof -
  from assms(2) have "(key, p) \<in> set ps" by (rule map_of_SomeD)
  with assms(1) have "\<not> getterThrows p" by (auto simp: list_ex_iff)
  then show ?thesis
    by (cases p; cases "un_Accessor2 p") (auto simp: getterThrows_def)
qed

lemma Get_own:
  assumes "\<not> list_ex (\<lambda>(k, p). getterThrows p) (props obj)" "map_of (props obj) key = Some p"
  shows "\<not> raises (Get obj key)"
proof -
  from own_property_no_raise [OF assms] obtain x
    where "(case p of Data _ v \<Rightarrow> Inr v | Accessor _ r \<Rightarrow> r) = Inr x" by blast
  then show ?thesis using assms(2)
    by (cases p) (simp_all add: Get_def raises_simps)
qed

lemma Get_no_raise:
  assumes "\<not> list_ex (\<lambda>(k, p). getterThrows p) (props obj)" "key \<noteq> PStr (lit ''size'')"
  shows "\<not> raises (Get obj key)"
proof (cases "map_of (props obj) key")
  case None
  then show ?thesis
    using lookupChain_no_raise [OF assms(2)]
    by (cases "base obj") (simp_all add: Get_def raises_simps)
next
  case (Some p)
  with assms(1) show ?thesis by (rule Get_own)
qed

lemma chain_members:
  "BMap \<in> set (builtinChain b) \<longleftrightarrow> b = BMap"
  "BSet \<in> set (builtinChain b) \<longleftrightarrow> b = BSet"
  "BDate \<in> set (builtinChain b) \<longleftrightarrow> b = BDate"
  "BArray \<in> set (builtinChain b) \<longleftrightarrow> b = BArray"
  by (cases b; simp)+

lemma instanceof_Obj:
  "instanceof (Obj obj) C \<longleftrightarrow> (\<exists>b. base obj = Some b \<and> C \<in> set (builtinChain b))"
  by (cases "base obj") (simp_all add: instanceof_def)

lemma benign_Obj:
  "benign (Obj obj) \<longleftrightarrow>
     \<not> list_ex (\<lambda>(k, p). getterThrows p) (props obj)
     \<and> map_of (props obj) (PStr (lit ''getTime'')) = None
     \<and> map_of (props obj) (PStr (lit ''every'')) = None
     \<and> (slots obj = Callable \<longrightarrow>
          base obj \<noteq> None \<and> map_of (props obj) (PStr (lit ''constructor'')) = None)
     \<and> ((\<exists>es. slots obj = ArrayExotic es) \<longrightarrow> base obj = Some BArray)
     \<and> (base obj = Some BDate \<longrightarrow> (\<exists>t. slots obj = DateValue t))
     \<and> (base obj = Some BMap \<longrightarrow> (\<exists>es. slots obj = MapData es))
     \<and> (base obj = Some BSet \<longrightarrow> (\<exists>es. slots obj = SetData es))"
  by (cases "slots obj") (auto simp: benign_def instanceof_Obj chain_members Array_isArray_def)

lemma size_of_Map:
  "intrinsicProperty (MapData es) BMap (PStr (lit ''size''))
     = Some (Inr (Num (Finite (of_nat (length es)))))"
  by (simp add: intrinsicProperty_def size_key)

lemma size_of_Set:
  "intrinsicProperty (SetData es) BSet (PStr (lit ''size''))
     = Some (Inr (Num (Finite (of_nat (length es)))))"
  by (simp add: intrinsicProperty_def size_key)

lemma Get_size_Map:
  assumes "benign (Obj obj)" "base obj = Some BMap \<or> base obj = Some BSet"
  shows "\<not> raises (Get obj (PStr (lit ''size'')))"
proof (cases "map_of (props obj) (PStr (lit ''size''))")
  case None
  from assms consider es where "base obj = Some BMap" "slots obj = MapData es"
    | es where "base obj = Some BSet" "slots obj = SetData es"
    by (auto simp: benign_Obj)
  then show ?thesis
  proof cases
    case 1
    then show ?thesis by (simp add: Get_def None size_of_Map raises_simps)
  next
    case 2
    then show ?thesis by (simp add: Get_def None size_of_Set raises_simps)
  qed
next
  case (Some p)
  with assms(1) show ?thesis by (simp add: benign_Obj Get_own)
qed

lemma isObject_benign: "benign v \<Longrightarrow> \<not> raises (isObject v)"
proof (cases "\<exists>obj. v = Obj obj")
  case True
  assume "benign v"
  from True obtain obj where v: "v = Obj obj" by blast
  with \<open>benign v\<close> have "\<not> raises (Get obj PToStringTag)"
    by (simp add: benign_Obj Get_no_raise)
  then show ?thesis unfolding v isObject_Obj
    by (cases "Get obj PToStringTag") (simp_all add: raises_simps)
next
  case False
  then show ?thesis by (simp add: isObject_primitive raises_simps)
qed

lemma Object_keys_Obj_total: "\<not> raises (Object_keys (Obj obj))"
  by (simp add: Object_keys_def ToObject_def raises_simps)

lemma isNonEmptyObject_benign: "benign v \<Longrightarrow> \<not> raises (isNonEmptyObject v)"
proof (cases "\<exists>obj. v = Obj obj")
  case True
  assume "benign v"
  then have "\<not> raises (isObject v)" by (rule isObject_benign)
  moreover from True have "\<not> raises (Object_keys v)" by (auto simp: Object_keys_Obj_total)
  ultimately show ?thesis
    by (cases "isObject v"; cases "Object_keys v") (simp_all add: isNonEmptyObject_def raises_simps)
next
  case False
  then show ?thesis by (simp add: isNonEmptyObject_def isObject_primitive raises_simps)
qed

text \<open>
  On a benign value the two method calls reach the intrinsic methods: a Date has its
  time value, and the elements of an array are visited in order.
\<close>

lemma Invoke_getTime_benign:
  assumes "benign v" "instanceof v BDate"
  shows "\<exists>t. Invoke_getTime h v = Inr t"
proof -
  from assms(2) obtain obj where v: "v = Obj obj"
    using instanceof_primitive by blast
  with assms(2) have "base obj = Some BDate"
    by (auto simp: instanceof_Obj chain_members)
  with assms(1) v obtain t where "slots obj = DateValue t"
    and "map_of (props obj) (PStr (lit ''getTime'')) = None"
    by (auto simp: benign_Obj)
  then show ?thesis using assms(2)
    by (simp add: v Invoke_getTime_def Date_prototype_getTime_def)
qed

lemma isDate_benign: "benign v \<Longrightarrow> \<not> raises (isDate h v)"
proof (cases "instanceof v BDate")
  case True
  assume "benign v"
  then obtain t where "Invoke_getTime h v = Inr t"
    using True Invoke_getTime_benign by blast
  then show ?thesis using True by (simp add: isDate_def raises_simps)
next
  case False
  then show ?thesis by (simp add: isDate_def raises_simps)
qed

lemma index_isDate_eq: "index_isDate h v = isDate h v"
  by (simp add: index_isDate_def isDate_def)

lemma Invoke_every_benign:
  assumes "benign v" "Array_isArray v"
  shows "Invoke_every h v p = every p (elements v)"
proof -
  from assms(2) obtain obj where v: "v = Obj obj"
    by (cases v) (simp_all add: Array_isArray_def)
  from assms have "instanceof v BArray"
    by (simp add: v benign_def)
  moreover from assms(1) have "map_of (props obj) (PStr (lit ''every'')) = None"
    by (simp add: v benign_Obj)
  ultimately show ?thesis
    by (simp add: v Invoke_every_def)
qed

lemma isArrayOf_benign:
  "benign v \<Longrightarrow>
   isArrayOf h v p = (if Array_isArray v then every p (elements v) else Inr False)"
  by (simp add: isArrayOf_def Invoke_every_benign)

lemma isArrayOf_no_raise:
  "benign v \<Longrightarrow> (\<forall>x \<in> set (elements v). \<not> raises (p x)) \<Longrightarrow> \<not> raises (isArrayOf h v p)"
  by (simp add: isArrayOf_benign every_no_raise raises_simps)

lemma array_checkers_total:
  "benign v \<Longrightarrow> \<not> raises (isStringArray h v)"
  "benign v \<Longrightarrow> \<not> raises (isNumberArray h v)"
  by (simp_all add: isStringArray_def isNumberArray_def isArrayOf_no_raise basic_checkers_total)

text \<open>
  Off the benign values the two method calls leave the intrinsic methods: a callable
  property of the name is called through the host, and without any method of the name
  the call throws, as for an array whose prototype has been set to \<open>null\<close>.
\<close>

lemma Invoke_every_own:
  assumes "map_of (props obj) (PStr (lit ''every'')) = Some (Data e f)" "IsCallable f"
  shows "Invoke_every h (Obj obj) p = CallEvery h f (Obj obj) p"
  using assms by (simp add: Invoke_every_def Get_def)

lemma Invoke_every_missing:
  assumes "map_of (props obj) (PStr (lit ''every'')) = None" "\<not> instanceof (Obj obj) BArray"
  shows "Invoke_every h (Obj obj) p = Inl HostTypeError"
  using assms by (simp add: Invoke_every_def)

lemma Invoke_getTime_own:
  assumes "map_of (props obj) (PStr (lit ''getTime'')) = Some (Data e f)" "IsCallable f"
  shows "Invoke_getTime h (Obj obj) = CallGetTime h f (Obj obj)"
  using assms by (simp add: Invoke_getTime_def Get_def)

lemma isStringArray_without_prototype:
  "isStringArray h (Obj (Object (ArrayExotic es) [] None)) = Inl HostTypeError"
  by (simp add: isStringArray_def isArrayOf_def Array_isArray_def Invoke_every_missing
      instanceof_def)

text \<open>What the functions with a \<open>catch\<close> return when the guarded operation throws.\<close>

lemma isUrl_cases: "isUrl h v = Inr (\<exists>s. v = Str s \<and> \<not> raises (new_URL h s))"
  by (cases v) (simp_all add: isUrl_def typeof_string new_URL_def raises_simps)

lemma isJsonSerializable_cases:
  "isJsonSerializable h v = Inr (\<not> raises (JSON_stringify h v))"
  by (cases "JSON_stringify h v") (simp_all add: isJsonSerializable_def raises_simps)

lemma index_isEmpty_size:
  assumes "\<not> Array_isArray v" "instanceof v BMap \<or> instanceof v BSet"
  shows "index_isEmpty v = Inr (GetV v (PStr (lit ''size'')) = Inr (Num (Finite 0)))"
proof -
  from assms(2) obtain obj where v: "v = Obj obj"
    using instanceof_primitive by blast
  show ?thesis
    using assms unfolding v
    by (cases "Get obj (PStr (lit ''size''))")
      (simp_all add: index_isEmpty_def tryCatch_def looselyNull_Obj typeof_Obj_not_string GetV_Obj)
qed

lemma index_isEmpty_size_raises:
  assumes "\<not> Array_isArray v" "instanceof v BMap \<or> instanceof v BSet"
    "raises (GetV v (PStr (lit ''size'')))"
  shows "index_isEmpty v = Inr False"
  using assms(3) unfolding index_isEmpty_size [OF assms(1,2)]
  by (cases "GetV v (PStr (lit ''size''))") (simp_all add: raises_simps)

lemma mapPrototypeChild_facts:
  "\<not> Array_isArray mapPrototypeChild" "instanceof mapPrototypeChild BMap"
  "GetV mapPrototypeChild (PStr (lit ''size'')) = Inl HostTypeError"
  by (simp_all add: mapPrototypeChild_def Array_isArray_def instanceof_def GetV_Obj Get_def
      intrinsicProperty_def size_key)

lemma first_constructor:
  "lookupChain sl (builtinChain b) (PStr (lit ''constructor'')) = Inr (intrinsicFunction (builtinName b))"
  by (cases b) (simp_all add: intrinsicProperty_def)

lemma intrinsicFunction_name:
  "GetV (intrinsicFunction n) (PStr (lit ''name'')) = Inr (Str n)"
  by (simp add: intrinsicFunction_def GetV_Obj Get_def)

lemma isAsyncFunction_benign: "benign v \<Longrightarrow> \<not> raises (isAsyncFunction v)"
proof (cases "typeof v = lit ''function''")
  case True
  assume "benign v"
  from True obtain obj where v: "v = Obj obj" and c: "slots obj = Callable"
    by (cases v) (auto simp: typeof_function IsCallable_def)
  with \<open>benign v\<close> obtain b where b: "base obj = Some b"
    and own: "map_of (props obj) (PStr (lit ''constructor'')) = None"
    by (auto simp: benign_Obj)
  have "GetV v (PStr (lit ''constructor'')) = Inr (intrinsicFunction (builtinName b))"
    unfolding v GetV_Obj by (simp add: Get_def own b first_constructor)
  then show ?thesis using True
    by (simp add: isAsyncFunction_def intrinsicFunction_name raises_simps)
next
  case False
  then show ?thesis by (simp add: isAsyncFunction_def raises_simps)
qed

lemma isPromise_benign: "benign v \<Longrightarrow> \<not> raises (isPromise v)"
proof (cases "\<exists>obj. v = Obj obj")
  case True
  assume "benign v"
  from True obtain obj where v: "v = Obj obj" by blast
  with \<open>benign v\<close> have "\<not> raises (Get obj (PStr (lit ''then'')))"
    by (simp add: benign_Obj Get_no_raise size_key)
  then show ?thesis unfolding v
    by (cases "Get obj (PStr (lit ''then''))") (simp_all add: isPromise_def GetV_Obj raises_simps)
next
  case False
  then show ?thesis
    by (cases v) (simp_all add: isPromise_def instanceof_def typeof_object raises_simps)
qed

lemma isEmpty_benign: "benign v \<Longrightarrow> \<not> raises (isEmpty v)"
proof (cases "\<exists>obj. v = Obj obj")
  case True
  assume "benign v"
  from True obtain obj where v: "v = Obj obj" by blast
  have obj: "\<not> raises (isObject v)" using \<open>benign v\<close> by (rule isObject_benign)
  have keys: "\<not> raises (Object_keys v)" unfolding v by (rule Object_keys_Obj_total)
  have size: "\<not> raises (GetV v (PStr (lit ''size'')))"
    if "instanceof v BMap \<or> instanceof v BSet"
    using that \<open>benign v\<close> unfolding v GetV_Obj
    by (intro Get_size_Map) (auto simp: instanceof_Obj chain_members)
  show ?thesis
    using obj keys size
    by (cases "isObject v"; cases "Object_keys v"; cases "GetV v (PStr (lit ''size''))")
      (auto simp: isEmpty_def raises_simps)
next
  case False
  then show ?thesis
    by (cases v) (simp_all add: isEmpty_def looselyNull_def typeof_string Array_isArray_def
        instanceof_def isObject_primitive raises_simps)
qed

lemma isNotEmpty_benign: "benign v \<Longrightarrow> \<not> raises (isNotEmpty v)"
  using isEmpty_benign [of v] by (cases "isEmpty v") (simp_all add: isNotEmpty_def raises_simps)

text \<open>
  Claim C6, as stated, fails: \<open>isAsyncFunction\<close> reads \<open>value.constructor.name\<close>
  and raises a \<open>TypeError\<close> on a function whose \<open>constructor\<close> is \<open>null\<close>; \<open>isEmpty\<close>
  of the full library reads \<open>value.size\<close> of anything that inherits from
  \<open>Map.prototype\<close> and raises the \<open>TypeError\<close> of the \<open>size\<close> getter on an object
  that is not a Map.
\<close>

theorem guards_raise_on_hostile_objects:
  "typeof functionWithoutConstructor = lit ''function''
   \<and> isAsyncFunction functionWithoutConstructor = Inl HostTypeError
   \<and> instanceof mapPrototypeChild BMap
   \<and> isEmpty mapPrototypeChild = Inl HostTypeError"
proof (intro conjI)
  show f: "typeof functionWithoutConstructor = lit ''function''"
    by (simp add: functionWithoutConstructor_def typeof_function IsCallable_def)
  have "GetV functionWithoutConstructor (PStr (lit ''constructor'')) = Inr Null"
    by (simp add: functionWithoutConstructor_def GetV_Obj Get_def)
  moreover have "GetV Null (PStr (lit ''name'')) = Inl HostTypeError"
    by (simp add: GetV_def ToObject_def)
  ultimately show "isAsyncFunction functionWithoutConstructor = Inl HostTypeError"
    using f by (simp add: isAsyncFunction_def)
  show m: "instanceof mapPrototypeChild BMap"
    by (simp add: mapPrototypeChild_def instanceof_def)
  have "GetV mapPrototypeChild (PStr (lit ''size'')) = Inl HostTypeError"
    by (simp add: mapPrototypeChild_def GetV_Obj Get_def intrinsicProperty_def size_key)
  then show "isEmpty mapPrototypeChild = Inl HostTypeError"
    using m by (simp add: isEmpty_def)
      (simp add: mapPrototypeChild_def looselyNull_def typeof_string Array_isArray_def)
qed

text \<open>
  Claim C6, amended. With the built-ins unmodified, on a value that is not a Proxy and
  has no Proxy on its prototype chain: \<open>isObject\<close>, \<open>isNonEmptyObject\<close>, \<open>isDate\<close>
  (of both versions), \<open>isAsyncFunction\<close>, \<open>isPromise\<close>, \<open>isEmpty\<close> and
  \<open>isNotEmpty\<close> of the full library, \<open>isStringArray\<close> and \<open>isNumberArray\<close> do not
  raise on a benign value: a primitive, or an object that, counting what it inherits from
  user-defined prototypes, has no getter that throws and no \<open>getTime\<close> or \<open>every\<close>,
  inherits its \<open>constructor\<close> from a built-in prototype if it is a function,
  inherits from \<open>Array.prototype\<close> if it is an array, and is a real Date, Map or Set
  if it inherits from the prototype of one. On a benign value \<open>isArrayOf\<close> raises
  only if its predicate raises on an element. A predicate made by \<open>isOneOf\<close> raises
  only if one of its predicates raises. Every other function except \<open>assertType\<close>
  never raises, and \<open>isUrl\<close>, \<open>isJsonSerializable\<close> and the \<open>isEmpty\<close> of
  \<open>src/index.ts\<close> return false when, respectively, the \<open>URL\<close> constructor,
  \<open>JSON.stringify\<close> or the read of \<open>size\<close> throws.
\<close>

theorem guards_total_on_benign_values:
  "\<not> raises (isNumeric v) \<and> \<not> raises (isString v) \<and> \<not> raises (isNonEmptyString v)
   \<and> \<not> raises (isBoolean v) \<and> \<not> raises (isNumber v) \<and> \<not> raises (isInteger v)
   \<and> \<not> raises (isPositiveNumber v) \<and> \<not> raises (isBigInt v) \<and> \<not> raises (isSymbol v)
   \<and> \<not> raises (isArray v) \<and> \<not> raises (isNonEmptyArray v) \<and> \<not> raises (isRegExp v)
   \<and> \<not> raises (isMap v) \<and> \<not> raises (isSet v) \<and> \<not> raises (isFunction v)
   \<and> \<not> raises (isNull v) \<and> \<not> raises (isUndefined v) \<and> \<not> raises (isNullish v)
   \<and> \<not> raises (isDefined v)
   \<and> \<not> raises (isUrl h v) \<and> \<not> raises (isEmail v) \<and> \<not> raises (isUuid v)
   \<and> \<not> raises (isPrimitive v) \<and> \<not> raises (isJsonSerializable h v) \<and> \<not> raises (getType v)
   \<and> \<not> raises (index_isNumeric v) \<and> \<not> raises (index_isString v)
   \<and> \<not> raises (index_isBoolean v) \<and> \<not> raises (index_isArray v)
   \<and> \<not> raises (index_isObject v) \<and> \<not> raises (index_isFunction v)
   \<and> \<not> raises (index_isNull v) \<and> \<not> raises (index_isUndefined v)
   \<and> \<not> raises (index_isEmpty v)
   \<and> isUrl h v = Inr (\<exists>s. v = Str s \<and> \<not> raises (new_URL h s))
   \<and> isJsonSerializable h v = Inr (\<not> raises (JSON_stringify h v))
   \<and> (\<not> Array_isArray v \<and> (instanceof v BMap \<or> instanceof v BSet)
        \<longrightarrow> index_isEmpty v = Inr (GetV v (PStr (lit ''size'')) = Inr (Num (Finite 0))))
   \<and> (\<not> Array_isArray v \<and> (instanceof v BMap \<or> instanceof v BSet)
        \<and> raises (GetV v (PStr (lit ''size'')))
        \<longrightarrow> index_isEmpty v = Inr False)
   \<and> (benign v \<longrightarrow>
        \<not> raises (isObject v) \<and> \<not> raises (isNonEmptyObject v) \<and> \<not> raises (isDate h v)
        \<and> \<not> raises (isAsyncFunction v) \<and> \<not> raises (isPromise v) \<and> \<not> raises (isEmpty v)
        \<and> \<not> raises (isNotEmpty v) \<and> \<not> raises (index_isDate h v)
        \<and> \<not> raises (isStringArray h v) \<and> \<not> raises (isNumberArray h v)
        \<and> ((\<forall>x \<in> set (elements v). \<not> raises (p x)) \<longrightarrow> \<not> raises (isArrayOf h v p)))
   \<and> ((\<forall>q \<in> set ps. \<not> raises (q v)) \<longrightarrow> \<not> raises (isOneOf ps v))"
proof (intro conjI impI)
  assume "benign v"
  then show "\<not> raises (isObject v)" "\<not> raises (isNonEmptyObject v)" "\<not> raises (isDate h v)"
    "\<not> raises (isAsyncFunction v)" "\<not> raises (isPromise v)" "\<not> raises (isEmpty v)"
    "\<not> raises (isNotEmpty v)" "\<not> raises (index_isDate h v)"
    "\<not> raises (isStringArray h v)" "\<not> raises (isNumberArray h v)"
    by (simp_all only: isObject_benign isNonEmptyObject_benign isDate_benign
        isAsyncFunction_benign isPromise_benign isEmpty_benign isNotEmpty_benign
        index_isDate_eq array_checkers_total not_False_eq_True)
next
  assume "benign v" "\<forall>x \<in> set (elements v). \<not> raises (p x)"
  then show "\<not> raises (isArrayOf h v p)" by (rule isArrayOf_no_raise)
next
  assume "\<forall>q \<in> set ps. \<not> raises (q v)"
  then show "\<not> raises (isOneOf ps v)" by (rule isOneOf_no_raise)
next
  show "isUrl h v = Inr (\<exists>s. v = Str s \<and> \<not> raises (new_URL h s))"
    by (rule isUrl_cases)
  show "isJsonSerializable h v = Inr (\<not> raises (JSON_stringify h v))"
    by (rule isJsonSerializable_cases)
next
  assume "\<not> Array_isArray v \<and> (instanceof v BMap \<or> instanceof v BSet)"
  then show "index_isEmpty v = Inr (GetV v (PStr (lit ''size'')) = Inr (Num (Finite 0)))"
    by (blast intro: index_isEmpty_size)
next
  assume "\<not> Array_isArray v \<and> (instanceof v BMap \<or> instanceof v BSet)
        \<and> raises (GetV v (PStr (lit ''size'')))"
  then show "index_isEmpty v = Inr False"
    by (blast intro: index_isEmpty_size_raises)
qed (rule basic_checkers_total structural_checkers_total format_checkers_total
      index_checkers_total)+

lemma benign_samples:
  "benign plainFunction" "benign epochDate" "benign arrayWithOne" "benign (Num NaN)"
  by (simp_all add: benign_def plainFunction_def epochDate_def arrayWithOne_def instanceof_def
      Array_isArray_def lit_def)

text \<open>
  The amended claim at a function, a Date, the array \<open>[1]\<close>, a string that the host's
  parser rejects, and an object that inherits from \<open>Map.prototype\<close> without being a
  Map, on which reading \<open>size\<close> throws.
\<close>

theorem guards_total_on_benign_values_witness:
  "benign plainFunction \<and> \<not> raises (isAsyncFunction plainFunction)
   \<and> benign epochDate \<and> \<not> raises (isDate exampleHost epochDate)
   \<and> \<not> raises (isEmpty epochDate) \<and> \<not> raises (isObject epochDate)
   \<and> benign arrayWithOne \<and> \<not> raises (isStringArray exampleHost arrayWithOne)
   \<and> \<not> raises (isArrayOf exampleHost arrayWithOne isString)
   \<and> \<not> raises (isOneOf [isString, isAsyncFunction] plainFunction)
   \<and> raises (new_URL exampleHost (lit ''x'')) \<and> isUrl exampleHost (Str (lit ''x'')) = Inr False
   \<and> instanceof mapPrototypeChild BMap
   \<and> raises (GetV mapPrototypeChild (PStr (lit ''size'')))
   \<and> index_isEmpty mapPrototypeChild = Inr False"
  using guards_total_on_benign_values [where v = plainFunction and p = isString
      and ps = "[isString, isAsyncFunction]" and h = exampleHost]
    guards_total_on_benign_values [where v = epochDate and p = isString and ps = "[]"
      and h = exampleHost]
    guards_total_on_benign_values [where v = arrayWithOne and p = isString and ps = "[]"
      and h = exampleHost]
    guards_total_on_benign_values [where v = "Str (lit ''x'')" and p = isString and ps = "[]"
      and h = exampleHost]
    guards_total_on_benign_values [where v = mapPrototypeChild and p = isString and ps = "[]"
      and h = exampleHost]
    benign_samples mapPrototypeChild_facts
  by (simp add: basic_checkers_total raises_simps new_URL_def exampleHost_def)

section \<open>Type assertions\<close>

lemma ToString_Str: "ToString h (Str s) = Inr s"
  by (simp add: ToString_def)

lemma assertType_holds:
  "predicate v = Inr True \<Longrightarrow> assertType h v predicate message = Inr ()"
  by (simp add: assertType_def)

lemma assertType_custom:
  "predicate v = Inr False \<Longrightarrow> m \<noteq> [] \<Longrightarrow>
   assertType h v predicate (Some m) = Inl (TypeError m)"
  by (simp add: assertType_def)

lemma assertType_default:
  "predicate v = Inr False \<Longrightarrow> message = None \<or> message = Some [] \<Longrightarrow>
   ToString h v = Inr s \<Longrightarrow>
   assertType h v predicate message
     = Inl (TypeError (lit ''Type assertion failed for value: '' @ s))"
  by (auto simp: assertType_def defaultMessage_def)

lemma assertType_raises:
  "predicate v = Inr holds \<Longrightarrow>
   raises (assertType h v predicate message) \<longleftrightarrow> \<not> holds"
  by (cases holds; cases message; cases "ToString h v")
    (auto simp: assertType_def defaultMessage_def raises_simps)

text \<open>
  Claim C7, as stated, fails. A caller who supplies the empty string as the message gets
  an error that carries the default message, not the supplied one, because \<open>||\<close> takes
  the empty string for absent. And when no message is supplied and the value is a symbol,
  the template literal throws the host's own \<open>TypeError\<close> before the default message
  exists.
\<close>

theorem assertType_default_for_empty_message:
  "isNumber (Str (lit ''x'')) = Inr False
   \<and> assertType exampleHost (Str (lit ''x'')) isNumber (Some [])
       = Inl (TypeError (lit ''Type assertion failed for value: x''))
   \<and> isString (Sym None) = Inr False
   \<and> assertType exampleHost (Sym None) isString None = Inl HostTypeError"
proof (intro conjI)
  show n: "isNumber (Str (lit ''x'')) = Inr False"
    by (simp add: isNumber_def typeof_number)
  show "assertType exampleHost (Str (lit ''x'')) isNumber (Some [])
       = Inl (TypeError (lit ''Type assertion failed for value: x''))"
    using n assertType_default [where predicate = isNumber and v = "Str (lit ''x'')"
        and message = "Some []" and h = exampleHost and s = "lit ''x''"]
    by (simp add: ToString_Str lit_def)
  show s: "isString (Sym None) = Inr False"
    by (simp add: isString_def typeof_string)
  show "assertType exampleHost (Sym None) isString None = Inl HostTypeError"
    by (simp add: assertType_def s defaultMessage_def ToString_def)
qed

text \<open>
  Claim C7, amended. When the predicate returns, \<open>assertType\<close> raises iff it returned
  false. When it returned true, \<open>assertType\<close> returns and nothing else happens. When it
  returned false and the caller supplied a non-empty message, the \<open>TypeError\<close> carries
  that message. When it returned false, the message is absent or empty and the value
  converts to a string \<open>s\<close>, the \<open>TypeError\<close> carries
  \<open>Type assertion failed for value: \<close> followed by \<open>s\<close>.
\<close>

theorem assertType_raises_iff_predicate_false:
  "predicate v = Inr holds \<longrightarrow>
     (raises (assertType h v predicate message) \<longleftrightarrow> \<not> holds)
     \<and> (holds \<longrightarrow> assertType h v predicate message = Inr ())
     \<and> (\<not> holds \<and> message = Some m \<and> m \<noteq> [] \<longrightarrow>
          assertType h v predicate message = Inl (TypeError m))
     \<and> (\<not> holds \<and> (message = None \<or> message = Some []) \<and> ToString h v = Inr s \<longrightarrow>
          assertType h v predicate message
            = Inl (TypeError (lit ''Type assertion failed for value: '' @ s)))"
  using assertType_raises [of predicate v holds h message]
    assertType_holds [of predicate v h message]
    assertType_custom [of predicate v m h]
    assertType_default [of predicate v message h s]
  by auto

text \<open>
  The amended claim at the string \<open>"x"\<close>: asserted to be a string; asserted to be a
  number with a message; asserted to be a number without one.
\<close>

theorem assertType_raises_iff_predicate_false_witness:
  "assertType exampleHost (Str (lit ''x'')) isString None = Inr ()
   \<and> assertType exampleHost (Str (lit ''x'')) isNumber (Some (lit ''not a number''))
       = Inl (TypeError (lit ''not a number''))
   \<and> assertType exampleHost (Str (lit ''x'')) isNumber None
       = Inl (TypeError (lit ''Type assertion failed for value: x''))"
  using assertType_raises_iff_predicate_false [where predicate = isString
      and v = "Str (lit ''x'')" and holds = True and h = exampleHost and message = None]
    assertType_raises_iff_predicate_false [where predicate = isNumber
      and v = "Str (lit ''x'')" and holds = False and h = exampleHost
      and message = "Some (lit ''not a number'')" and m = "lit ''not a number''"]
    assertType_raises_iff_predicate_false [where predicate = isNumber
      and v = "Str (lit ''x'')" and holds = False and h = exampleHost
      and message = None and s = "lit ''x''"]
  by (simp add: isString_def isNumber_def typeof_string typeof_number ToString_Str) 
    (simp add: lit_def)

end
